theory Spec2Isabelle
  imports Complex_Main "HOL-Library.Word"
begin

unbundle bit_operations_syntax

section \<open>Data model of the scheme container\<close>

text \<open>
  The embedding follows \<^verbatim>\<open>src/ui/scheme/SchemeContainer.js\<close>.
  JavaScript numbers are read as real numbers, \<^verbatim>\<open>Math.cos\<close>,
  \<^verbatim>\<open>Math.sin\<close> and \<^verbatim>\<open>Math.PI\<close> as \<open>cos\<close>, \<open>sin\<close> and \<open>pi\<close>,
  except in the section on binary64 arithmetic, which models the rounding of IEEE
  doubles for the two functions whose round trip depends on it.
  A field that a JavaScript object may lack is an \<open>option\<close>; the truthiness test
  \<^verbatim>\<open>if (v)\<close> on a string is \<open>truthy\<close>. An absent \<^verbatim>\<open>childItems\<close>,
  \<^verbatim>\<open>connectors\<close> or \<^verbatim>\<open>reroutes\<close> array is read as the empty array: the container
  never tells the two apart (every use is guarded by a truthiness test followed by an
  iteration or a length test).
\<close>

datatype error = TypeError

datatype jsval = JNum real | JStr string | JBool bool | JArr "jsval list" | JObj "(string \<times> jsval) list"

record point =
  px :: real
  py :: real

record reroute =
  rr_x :: real
  rr_y :: real
  rr_disabled :: bool

record area =
  area_x :: real
  area_y :: real
  area_w :: real
  area_h :: real
  area_r :: real

record transform =
  tf_x :: real
  tf_y :: real
  tf_r :: real

record rect =
  rect_x :: real
  rect_y :: real
  rect_w :: real
  rect_h :: real

record connector_meta =
  sourceItemId :: "string option"
  points :: "point list option"
  conn_selected :: bool

record connector =
  conn_id :: "string option"
  itemId :: "string option"
  reroutes :: "reroute list"
  conn_props :: "(string \<times> jsval) list"
  conn_meta :: "connector_meta option"

record item_meta =
  collapsed :: bool
  collapseBitMask :: "32 word"
  meta_transform :: "transform option"
  ancestorIds :: "string option list option"
  parentId :: "string option"
  selected :: bool
  hovered :: bool

record item_fields =
  item_id :: "string option"
  item_area :: "area option"
  connectors :: "connector list"
  item_group :: "string option"
  item_shape :: "string option"
  item_meta :: "item_meta option"
  item_props :: "(string \<times> jsval) list"

text \<open>
  An item owns its children: the forest is a datatype, and a reference to an item
  (as kept in \<^verbatim>\<open>itemMap\<close>, \<^verbatim>\<open>selectedItems\<close> or \<^verbatim>\<open>copyBuffer\<close>) is the
  path of child indices that leads to it from \<^verbatim>\<open>scheme.items\<close>.
\<close>

datatype item = Item (itemFields: item_fields) (childItems: "item list")

definition truthy :: "string option \<Rightarrow> bool" where
  "truthy v = (case v of None \<Rightarrow> False | Some s \<Rightarrow> s \<noteq> [])"

definition zeroTransform :: transform where
  "zeroTransform = \<lparr>tf_x = 0, tf_y = 0, tf_r = 0\<rparr>"

definition transformOf :: "item \<Rightarrow> transform" where
  "transformOf it =
     (case item_meta (itemFields it) of
        None \<Rightarrow> zeroTransform
      | Some m \<Rightarrow> (case meta_transform m of None \<Rightarrow> zeroTransform | Some t \<Rightarrow> t))"

section \<open>Geometry\<close>

definition worldPointOnItem :: "real \<Rightarrow> real \<Rightarrow> item \<Rightarrow> point" where
  "worldPointOnItem x y it =
     (case item_area (itemFields it) of
        None \<Rightarrow> \<lparr>px = 0, py = 0\<rparr>
      | Some a \<Rightarrow>
          (let t = transformOf it;
               tAngle = tf_r t * pi / 180;
               cosTA = cos tAngle;
               sinTA = sin tAngle;
               angle = (tf_r t + area_r a) * pi / 180;
               cosa = cos angle;
               sina = sin angle
           in \<lparr>px = tf_x t + area_x a * cosTA - area_y a * sinTA + x * cosa - y * sina,
               py = tf_y t + area_x a * sinTA + area_y a * cosTA + x * sina + y * cosa\<rparr>))"

definition localPointOnItem :: "real \<Rightarrow> real \<Rightarrow> item \<Rightarrow> point" where
  "localPointOnItem x y it =
     (case item_area (itemFields it) of
        None \<Rightarrow> \<lparr>px = 0, py = 0\<rparr>
      | Some a \<Rightarrow>
          (let t = transformOf it;
               tAngle = tf_r t * pi / 180;
               cosTA = cos tAngle;
               sinTA = sin tAngle;
               angle = (tf_r t + area_r a) * pi / 180;
               cosa = cos angle;
               sina = sin angle;
               tx = tf_x t + area_x a * cosTA - area_y a * sinTA;
               ty = tf_y t + area_x a * sinTA + area_y a * cosTA
           in \<lparr>px = (y - ty) * sina + (x - tx) * cosa,
               py = (y - ty) * cosa - (x - tx) * sina\<rparr>))"

text \<open>
  \<^verbatim>\<open>getBoundingBoxOfItems\<close>: \<open>addPoint\<close> is the body of the inner loop over the four
  corner points, with \<open>None\<close> for the box that is still \<^verbatim>\<open>null\<close>. Reading
  \<^verbatim>\<open>item.area.w\<close> of an item without area throws.
\<close>

fun addPoint :: "rect option \<Rightarrow> point \<Rightarrow> rect option" where
  "addPoint None p = Some \<lparr>rect_x = px p, rect_y = py p, rect_w = 0, rect_h = 0\<rparr>"
| "addPoint (Some b) p =
     (let b1 = (if rect_x b > px p then b\<lparr>rect_x := px p\<rparr> else b);
          b2 = (if rect_x b1 + rect_w b1 < px p then b1\<lparr>rect_w := px p - rect_x b1\<rparr> else b1);
          b3 = (if rect_y b2 > py p then b2\<lparr>rect_y := py p\<rparr> else b2);
          b4 = (if rect_y b3 + rect_h b3 < py p then b3\<lparr>rect_h := py p + - rect_y b3\<rparr> else b3)
      in Some b4)"

definition cornerPoints :: "item \<Rightarrow> area \<Rightarrow> point list" where
  "cornerPoints it a =
     [worldPointOnItem 0 0 it,
      worldPointOnItem (area_w a) 0 it,
      worldPointOnItem (area_w a) (area_h a) it,
      worldPointOnItem 0 (area_h a) it]"

fun boundingBoxLoop :: "item list \<Rightarrow> rect option \<Rightarrow> error + rect option" where
  "boundingBoxLoop [] box = Inr box"
| "boundingBoxLoop (it # its) box =
     (case item_area (itemFields it) of
        None \<Rightarrow> Inl TypeError
      | Some a \<Rightarrow> boundingBoxLoop its (foldl addPoint box (cornerPoints it a)))"

definition getBoundingBoxOfItems :: "item list \<Rightarrow> error + rect option" where
  "getBoundingBoxOfItems items =
     (if items = [] then Inr (Some \<lparr>rect_x = 0, rect_y = 0, rect_w = 0, rect_h = 0\<rparr>)
      else boundingBoxLoop items None)"

text \<open>Items used as concrete inputs: a leaf item with the given id and area.\<close>

definition leafItem :: "string \<Rightarrow> area \<Rightarrow> item" where
  "leafItem i a =
     Item \<lparr>item_id = Some i, item_area = Some a, connectors = [], item_group = None,
           item_shape = None, item_meta = None, item_props = []\<rparr> []"

definition withTransform :: "transform \<Rightarrow> item \<Rightarrow> item" where
  "withTransform t it =
     Item ((itemFields it)\<lparr>item_meta := Some \<lparr>collapsed = False, collapseBitMask = 0,
             meta_transform = Some t, ancestorIds = Some [], parentId = None,
             selected = False, hovered = False\<rparr>\<rparr>) (childItems it)"

section \<open>The geometry in binary64 arithmetic\<close>

text \<open>
  A JavaScript number is an IEEE 754 binary64 value. Where the rounding matters (the
  round trip through \<^verbatim>\<open>worldPointOnItem\<close> and \<^verbatim>\<open>localPointOnItem\<close>) the two
  functions are modelled once more with every operation rounded. A finite double is
  the real number it denotes; \<open>None\<close> stands for the values that are not finite (the
  infinities and NaN), which every operation used here hands on. The sign of zero is
  not modelled. The numbers of an item and the coordinates given to the two functions
  are finite doubles. \<open>toDouble\<close> rounds a real number to the nearest double, ties to the
  even significand: \<open>quantum x\<close> is the distance between neighbouring doubles at
  \<open>x\<close> (52 fraction bits, the smallest exponent is -1022), and a result of magnitude
  \<open>2 ^ 1024\<close> or more is an overflow.
\<close>

definition roundToEven :: "real \<Rightarrow> int" where
  "roundToEven x =
     (let n = \<lfloor>x\<rfloor>
      in if x - of_int n < 1 / 2 then n
         else if 1 / 2 < x - of_int n then n + 1
         else if even n then n else n + 1)"

definition quantum :: "real \<Rightarrow> real" where
  "quantum x = 2 powr of_int (max \<lfloor>log 2 \<bar>x\<bar>\<rfloor> (- 1022) - 52)"

definition toDouble :: "real \<Rightarrow> real option" where
  "toDouble x =
     (if x = 0 then Some 0
      else (let y = of_int (roundToEven (x / quantum x)) * quantum x
            in if \<bar>y\<bar> < 2 powr 1024 then Some y else None))"

text \<open>
  \<^verbatim>\<open>Math.cos\<close> and \<^verbatim>\<open>Math.sin\<close> are implementation-approximated in ECMAScript; they
  are parameters, collected in \<open>platform\<close>. \<open>mathPI\<close> is \<^verbatim>\<open>Math.PI\<close>, the double
  nearest to \<open>pi\<close>. The divisor of \<open>div64\<close> is a finite constant other than zero.
\<close>

record platform =
  mathCos :: "real \<Rightarrow> real"
  mathSin :: "real \<Rightarrow> real"

definition mathPI :: real where
  "mathPI = 884279719003555 / 2 ^ 48"

fun add64 :: "real option \<Rightarrow> real option \<Rightarrow> real option" where
  "add64 (Some x) (Some y) = toDouble (x + y)"
| "add64 a b = None"

fun sub64 :: "real option \<Rightarrow> real option \<Rightarrow> real option" where
  "sub64 (Some x) (Some y) = toDouble (x - y)"
| "sub64 a b = None"

fun mul64 :: "real option \<Rightarrow> real option \<Rightarrow> real option" where
  "mul64 (Some x) (Some y) = toDouble (x * y)"
| "mul64 a b = None"

fun div64 :: "real option \<Rightarrow> real \<Rightarrow> real option" where
  "div64 (Some x) d = toDouble (x / d)"
| "div64 None d = None"

definition cos64 :: "platform \<Rightarrow> real option \<Rightarrow> real option" where
  "cos64 pl a = map_option (mathCos pl) a"

definition sin64 :: "platform \<Rightarrow> real option \<Rightarrow> real option" where
  "sin64 pl a = map_option (mathSin pl) a"

text \<open>
  \<^verbatim>\<open>worldPointOnItem\<close> and \<^verbatim>\<open>localPointOnItem\<close> with the operations in the order in
  which JavaScript evaluates them (\<^verbatim>\<open>a + b - c\<close> is \<^verbatim>\<open>(a + b) - c\<close>, and
  \<^verbatim>\<open>r * Math.PI/180\<close> is \<^verbatim>\<open>(r * Math.PI) / 180\<close>). \<open>roundTrip64\<close> is
  \<^verbatim>\<open>localPointOnItem\<close> applied to the result of \<^verbatim>\<open>worldPointOnItem\<close>.
\<close>

definition worldPointOnItem64 :: "platform \<Rightarrow> real \<Rightarrow> real \<Rightarrow> item \<Rightarrow> real option \<times> real option" where
  "worldPointOnItem64 pl x y it =
     (case item_area (itemFields it) of
        None \<Rightarrow> (Some 0, Some 0)
      | Some a \<Rightarrow>
          (let t = transformOf it;
               tAngle = div64 (mul64 (Some (tf_r t)) (Some mathPI)) 180;
               cosTA = cos64 pl tAngle;
               sinTA = sin64 pl tAngle;
               angle = div64 (mul64 (add64 (Some (tf_r t)) (Some (area_r a))) (Some mathPI)) 180;
               cosa = cos64 pl angle;
               sina = sin64 pl angle
           in (sub64 (add64 (sub64 (add64 (Some (tf_x t)) (mul64 (Some (area_x a)) cosTA))
                                   (mul64 (Some (area_y a)) sinTA))
                            (mul64 (Some x) cosa))
                     (mul64 (Some y) sina),
               add64 (add64 (add64 (add64 (Some (tf_y t)) (mul64 (Some (area_x a)) sinTA))
                                   (mul64 (Some (area_y a)) cosTA))
                            (mul64 (Some x) sina))
                     (mul64 (Some y) cosa))))"

definition localPointOnItem64 :: "platform \<Rightarrow> real \<Rightarrow> real \<Rightarrow> item \<Rightarrow> real option \<times> real option" where
  "localPointOnItem64 pl x y it =
     (case item_area (itemFields it) of
        None \<Rightarrow> (Some 0, Some 0)
      | Some a \<Rightarrow>
          (let t = transformOf it;
               tAngle = div64 (mul64 (Some (tf_r t)) (Some mathPI)) 180;
               cosTA = cos64 pl tAngle;
               sinTA = sin64 pl tAngle;
               angle = div64 (mul64 (add64 (Some (tf_r t)) (Some (area_r a))) (Some mathPI)) 180;
               cosa = cos64 pl angle;
               sina = sin64 pl angle;
               tx = sub64 (add64 (Some (tf_x t)) (mul64 (Some (area_x a)) cosTA))
                          (mul64 (Some (area_y a)) sinTA);
               ty = add64 (add64 (Some (tf_y t)) (mul64 (Some (area_x a)) sinTA))
                          (mul64 (Some (area_y a)) cosTA)
           in (add64 (mul64 (sub64 (Some y) ty) sina) (mul64 (sub64 (Some x) tx) cosa),
               sub64 (mul64 (sub64 (Some y) ty) cosa) (mul64 (sub64 (Some x) tx) sina))))"

definition roundTrip64 :: "platform \<Rightarrow> real \<Rightarrow> real \<Rightarrow> item \<Rightarrow> real option \<times> real option" where
  "roundTrip64 pl x y it =
     (case worldPointOnItem64 pl x y it of
        (Some wx, Some wy) \<Rightarrow> localPointOnItem64 pl wx wy it
      | _ \<Rightarrow> (None, None))"

text \<open>
  A platform whose \<^verbatim>\<open>Math.cos\<close> and \<^verbatim>\<open>Math.sin\<close> are correctly rounded, and an item
  far from the origin (at \<open>x = 2 ^ 40\<close>, without rotation, outside any parent).
\<close>

definition correctlyRounded :: "real \<Rightarrow> real" where
  "correctlyRounded v = (case toDouble v of Some z \<Rightarrow> z | None \<Rightarrow> 0)"

definition roundedPlatform :: platform where
  "roundedPlatform =
     \<lparr>mathCos = (\<lambda>t. correctlyRounded (cos t)), mathSin = (\<lambda>t. correctlyRounded (sin t))\<rparr>"

definition farItem :: item where
  "farItem = leafItem ''far'' \<lparr>area_x = 1099511627776, area_y = 0, area_w = 1, area_h = 1, area_r = 0\<rparr>"

section \<open>Collaborators and container state\<close>

text \<open>
  The shape registry (\<^verbatim>\<open>Shape.find\<close>), the id generator (\<^verbatim>\<open>shortid.generate\<close>),
  the SVG path measurements of the browser (\<^verbatim>\<open>getTotalLength\<close>,
  \<^verbatim>\<open>getPointAtLength\<close>) and the constants of \<^verbatim>\<open>Connector.js\<close> and
  \<^verbatim>\<open>Item.js\<close> are not part of the container: they are parameters, collected in
  \<open>env\<close>. The \<open>n\<close>-th call of \<^verbatim>\<open>shortid.generate()\<close> returns \<open>generate e n\<close>;
  the container state counts the calls in \<open>idCounter\<close>.
  The type of the scheme object is not among the sources either. The container reads
  \<^verbatim>\<open>scheme.items\<close> and \<^verbatim>\<open>scheme.style\<close> as plain data; one method,
  \<^verbatim>\<open>ungroupItem\<close>, calls \<^verbatim>\<open>this.scheme.getItems()\<close>. \<open>schemeGetItems\<close> is that
  method when the scheme object has one (it returns references to items), and \<open>None\<close>
  for a scheme that is plain data, on which the call throws.
\<close>

type_synonym path = "nat list"

record shape =
  shape_args :: "(string \<times> jsval) list"
  computePath :: "(item \<Rightarrow> string option) option"

record env =
  shapeFind :: "string \<Rightarrow> shape option"
  generate :: "nat \<Rightarrow> string"
  getTotalLength :: "string \<Rightarrow> real"
  getPointAtLength :: "string \<Rightarrow> real \<Rightarrow> point"
  patternLINE :: jsval
  typeSTRAIGHT :: jsval
  capARROW :: jsval
  capEMPTY :: jsval
  modeSIDE_PANEL :: jsval
  schemeGetItems :: "(item list \<Rightarrow> path list) option"

datatype event =
  ItemSelected "string option"
| ItemDeselected "string option"
| ConnectorDeselected "string option"

record container =
  scheme_items :: "item list"
  selectedItems :: "path list"
  selectedConnectors :: "(path \<times> nat) list"
  itemMap :: "string \<Rightarrow> path option"
  itemArray :: "path list"
  destinationToSourceLookup :: "string \<Rightarrow> string option list option"
  copyBuffer :: "path list"
  connectorsMap :: "string \<Rightarrow> (path \<times> nat) option"
  revision :: nat
  idCounter :: nat
  events :: "event list"

text \<open>A JavaScript property key: \<^verbatim>\<open>undefined\<close> is the key \<^verbatim>\<open>"undefined"\<close>.\<close>

definition key_of :: "string option \<Rightarrow> string" where
  "key_of v = (case v of None \<Rightarrow> ''undefined'' | Some s \<Rightarrow> s)"

text \<open>
  \<^verbatim>\<open>itemMap\<close>, \<^verbatim>\<open>_destinationToSourceLookup\<close> and \<^verbatim>\<open>copiedItemIds\<close> are plain
  objects created by \<^verbatim>\<open>{}\<close>. Reading \<^verbatim>\<open>obj[key]\<close> yields the object's own property
  when it has one, and otherwise what \<^verbatim>\<open>Object.prototype\<close> holds under that name:
  a function for eleven names, and the prototype itself for \<^verbatim>\<open>__proto__\<close>. All
  twelve are truthy, and none is an item: it has no \<^verbatim>\<open>id\<close>, \<^verbatim>\<open>area\<close>, \<^verbatim>\<open>shape\<close>
  or \<^verbatim>\<open>meta\<close>. \<open>inheritedLength\<close> is the \<^verbatim>\<open>length\<close> property of the inherited
  value (the number of parameters of the function; \<^verbatim>\<open>Object.prototype\<close> has none,
  which reads as a falsy length).

  The maps of the model hold the own properties. An assignment
  \<^verbatim>\<open>obj['__proto__'] = v\<close> creates no own property: when \<^verbatim>\<open>v\<close> is an object it
  replaces the prototype of \<^verbatim>\<open>obj\<close>, and reading \<^verbatim>\<open>obj['__proto__']\<close> then yields
  \<^verbatim>\<open>v\<close>; otherwise it does nothing. For \<^verbatim>\<open>itemMap\<close> the model records
  the item under the key \<^verbatim>\<open>__proto__\<close>, so that this read is right. An item with that
  id, once indexed, also lends its own properties to every read of a key that
  \<^verbatim>\<open>itemMap\<close> does not own; this effect is outside the model, and a statement that
  depends on the result of such a read assumes that no item with the id
  \<^verbatim>\<open>__proto__\<close> is indexed (\<open>itemMap s ''__proto__'' = None\<close>).
  \<^verbatim>\<open>connectorsMap\<close> is a plain object too; the functions modelled write it and never
  read it.
\<close>

datatype 'a lookup = Absent | Own 'a | Inherited

definition inheritedKeys :: "string list" where
  "inheritedKeys =
     [''constructor'', ''hasOwnProperty'', ''isPrototypeOf'', ''propertyIsEnumerable'',
      ''toLocaleString'', ''toString'', ''valueOf'', ''__defineGetter__'', ''__defineSetter__'',
      ''__lookupGetter__'', ''__lookupSetter__'', ''__proto__'']"

definition inheritedLength :: "string \<Rightarrow> nat" where
  "inheritedLength k =
     (if k \<in> set [''constructor'', ''hasOwnProperty'', ''isPrototypeOf'', ''propertyIsEnumerable'',
                    ''__lookupGetter__'', ''__lookupSetter__''] then 1
      else if k \<in> set [''__defineGetter__'', ''__defineSetter__''] then 2
      else 0)"

definition getProperty :: "(string \<Rightarrow> 'a option) \<Rightarrow> string \<Rightarrow> 'a lookup" where
  "getProperty obj k =
     (case obj k of
        Some v \<Rightarrow> Own v
      | None \<Rightarrow> (if k \<in> set inheritedKeys then Inherited else Absent))"

fun item_at :: "item list \<Rightarrow> path \<Rightarrow> item option" where
  "item_at items [] = None"
| "item_at items (i # p) =
     (if i < length items
      then (if p = [] then Some (items ! i) else item_at (childItems (items ! i)) p)
      else None)"

fun update_at :: "(item \<Rightarrow> item) \<Rightarrow> path \<Rightarrow> item list \<Rightarrow> item list" where
  "update_at f [] items = items"
| "update_at f (i # p) items =
     (if i < length items
      then items[i := (if p = [] then f (items ! i)
                       else Item (itemFields (items ! i)) (update_at f p (childItems (items ! i))))]
      else items)"

definition map_fields :: "(item_fields \<Rightarrow> item_fields) \<Rightarrow> item \<Rightarrow> item" where
  "map_fields g it = Item (g (itemFields it)) (childItems it)"

text \<open>\<^verbatim>\<open>findItemById\<close> returns \<^verbatim>\<open>this.itemMap[itemId]\<close>.\<close>

definition findItemById :: "container \<Rightarrow> string option \<Rightarrow> item lookup" where
  "findItemById s i =
     (case getProperty (itemMap s) (key_of i) of
        Own p \<Rightarrow> (case item_at (scheme_items s) p of None \<Rightarrow> Absent | Some it \<Rightarrow> Own it)
      | Inherited \<Rightarrow> Inherited
      | Absent \<Rightarrow> Absent)"

text \<open>
  Statements run in sequence; an exception ends the sequence and leaves the state as it
  was when thrown.
\<close>

fun forEachM :: "('a \<Rightarrow> 's \<Rightarrow> error option \<times> 's) \<Rightarrow> 'a list \<Rightarrow> 's \<Rightarrow> error option \<times> 's" where
  "forEachM f [] s = (None, s)"
| "forEachM f (v # vs) s =
     (case f v s of (None, s') \<Rightarrow> forEachM f vs s' | (Some err, s') \<Rightarrow> (Some err, s'))"

definition andThen :: "error option \<times> 's \<Rightarrow> ('s \<Rightarrow> error option \<times> 's) \<Rightarrow> error option \<times> 's" where
  "andThen r f = (case r of (None, s) \<Rightarrow> f s | (Some err, s) \<Rightarrow> (Some err, s))"

text \<open>
  Modelled from the spec: \<^verbatim>\<open>utils.extendObject\<close> (\<^verbatim>\<open>utils.js\<close> is not among the
  sources) fills in the properties an object lacks and leaves the ones it has.
\<close>

definition extendObject :: "(string \<times> jsval) list \<Rightarrow> (string \<times> jsval) list \<Rightarrow> (string \<times> jsval) list" where
  "extendObject obj defaults = obj @ filter (\<lambda>kv. map_of obj (fst kv) = None) defaults"

section \<open>Connector routing\<close>

lemma ceiling_half_less:
  fixes w :: real
  assumes "1 < w"
  shows "\<lceil>w / 2\<rceil> < \<lceil>w\<rceil>"
proof -
  have two: "2 \<le> \<lceil>w\<rceil>" using assms by linarith
  have "w \<le> of_int \<lceil>w\<rceil>" by (rule le_of_int_ceiling)
  moreover have "(2::real) \<le> of_int \<lceil>w\<rceil>" using two by linarith
  ultimately have "w / 2 \<le> of_int \<lceil>w\<rceil> - 1" by linarith
  then have "w / 2 \<le> of_int (\<lceil>w\<rceil> - 1)" by simp
  then have "\<lceil>w / 2\<rceil> \<le> \<lceil>w\<rceil> - 1" by (simp only: ceiling_le_iff)
  then show ?thesis by simp
qed

function closestLoop :: "env \<Rightarrow> string \<Rightarrow> point \<Rightarrow> real \<Rightarrow> real \<Rightarrow> real \<Rightarrow> point \<Rightarrow> point" where
  "closestLoop e path localPoint left0 right0 segmentWidth closestPoint =
     (if segmentWidth > 1
      then (let middle = segmentWidth / 2;
                pointLeft = getPointAtLength e path (left0 + middle);
                pointRight = getPointAtLength e path (right0 + middle);
                distanceLeft = (px localPoint - px pointLeft) * (px localPoint - px pointLeft)
                             + (py localPoint - py pointLeft) * (py localPoint - py pointLeft);
                distanceRight = (px localPoint - px pointRight) * (px localPoint - px pointRight)
                              + (py localPoint - py pointRight) * (py localPoint - py pointRight);
                left0' = (if distanceLeft < distanceRight then left0 else right0);
                left1' = left0' + middle
            in closestLoop e path localPoint left0' left1' middle
                 (if distanceLeft < distanceRight then pointLeft else pointRight))
      else closestPoint)"
  by pat_completeness auto
termination
proof (relation "measure (\<lambda>(e, path, localPoint, left0, right0, segmentWidth, closestPoint). nat \<lceil>segmentWidth\<rceil>)")
  show "wf (measure (\<lambda>(e, path, localPoint, left0, right0, segmentWidth, closestPoint). nat \<lceil>segmentWidth\<rceil>))"
    by simp
next
  fix e :: env and path :: string and localPoint :: point and left0 right0 segmentWidth :: real
    and closestPoint :: point and x xa xb xc xd xe xf
  assume w: "1 < segmentWidth" and x: "x = segmentWidth / 2"
  have "\<lceil>x\<rceil> < \<lceil>segmentWidth\<rceil>" unfolding x using w by (rule ceiling_half_less)
  moreover have "0 < \<lceil>segmentWidth\<rceil>" using w by linarith
  ultimately show "((e, path, localPoint, xe, xf, x, if xc < xd then xa else xb),
        (e, path, localPoint, left0, right0, segmentWidth, closestPoint))
       \<in> measure (\<lambda>(e, path, localPoint, left0, right0, segmentWidth, closestPoint). nat \<lceil>segmentWidth\<rceil>)"
    by simp
qed

declare closestLoop.simps [simp del]

definition closestPointToSvgPath :: "env \<Rightarrow> item \<Rightarrow> string \<Rightarrow> point \<Rightarrow> point" where
  "closestPointToSvgPath e it path globalPoint =
     (let localPoint = localPointOnItem (px globalPoint) (py globalPoint) it;
          pathLength = getTotalLength e path;
          closestPoint = closestLoop e path localPoint 0 (pathLength / 2) (pathLength / 2)
                           (getPointAtLength e path 0)
      in worldPointOnItem (px closestPoint) (py closestPoint) it)"

definition outlinePath :: "env \<Rightarrow> item \<Rightarrow> string option" where
  "outlinePath e it =
     (if truthy (item_shape (itemFields it))
      then (case shapeFind e (key_of (item_shape (itemFields it))) of
              None \<Rightarrow> None
            | Some sh \<Rightarrow>
                (case computePath sh of
                   None \<Rightarrow> None
                 | Some f \<Rightarrow> (if truthy (f it) then f it else None)))
      else None)"

definition findEdgePoint :: "env \<Rightarrow> item \<Rightarrow> point \<Rightarrow> error + point" where
  "findEdgePoint e it nextPoint =
     (case outlinePath e it of
        Some path \<Rightarrow> Inr (closestPointToSvgPath e it path nextPoint)
      | None \<Rightarrow>
          (case item_area (itemFields it) of
             None \<Rightarrow> Inl TypeError
           | Some a \<Rightarrow> Inr \<lparr>px = area_x a + area_w a / 2, py = area_y a + area_h a / 2\<rparr>))"

definition reroutePoint :: "reroute \<Rightarrow> point" where
  "reroutePoint r = \<lparr>px = rr_x r, py = rr_y r\<rparr>"

definition centerOf :: "item \<Rightarrow> error + point" where
  "centerOf it =
     (case item_area (itemFields it) of
        None \<Rightarrow> Inl TypeError
      | Some a \<Rightarrow> Inr \<lparr>px = area_x a + area_w a / 2, py = area_y a + area_h a / 2\<rparr>)"

definition bindE :: "error + 'a \<Rightarrow> ('a \<Rightarrow> error + 'b) \<Rightarrow> error + 'b" where
  "bindE r f = (case r of Inl err \<Rightarrow> Inl err | Inr v \<Rightarrow> f v)"

definition enabledReroutes :: "connector \<Rightarrow> reroute list" where
  "enabledReroutes c = filter (\<lambda>r. \<not> rr_disabled r) (reroutes c)"

text \<open>
  The points of \<^verbatim>\<open>buildConnector\<close> (the statements between
  \<^verbatim>\<open>const points = []\<close> and \<^verbatim>\<open>connector.meta.points = points\<close>), for the
  source item, the connector and the destination item found in \<^verbatim>\<open>itemMap\<close>.
\<close>

definition connectorPoints :: "env \<Rightarrow> item \<Rightarrow> connector \<Rightarrow> item option \<Rightarrow> error + point list" where
  "connectorPoints e sourceItem c destinationItem =
     (if reroutes c \<noteq> []
      then bindE (findEdgePoint e sourceItem (reroutePoint (reroutes c ! 0)))
             (\<lambda>sourcePoint.
                (let pts = sourcePoint # map reroutePoint (enabledReroutes c)
                 in (case destinationItem of
                       None \<Rightarrow> Inr pts
                     | Some d \<Rightarrow>
                         bindE (findEdgePoint e d (reroutePoint (reroutes c ! (length (reroutes c) - 1))))
                           (\<lambda>destinationPoint. Inr (pts @ [destinationPoint])))))
      else (case destinationItem of
              None \<Rightarrow> Inr []
            | Some d \<Rightarrow>
                bindE (centerOf d)
                  (\<lambda>dc. bindE (findEdgePoint e sourceItem dc)
                     (\<lambda>p1. bindE (centerOf sourceItem)
                        (\<lambda>sc. bindE (findEdgePoint e d sc)
                           (\<lambda>p2. Inr [p1, p2]))))))"

definition defaultConnectorStyle :: "env \<Rightarrow> (string \<times> jsval) list" where
  "defaultConnectorStyle e =
     [(''name'', JStr []), (''opacity'', JNum 100), (''color'', JStr ''#333''),
      (''width'', JNum 1), (''pattern'', patternLINE e), (''connectorType'', typeSTRAIGHT e),
      (''destination'', JObj [(''type'', capARROW e), (''size'', JNum 5)]),
      (''source'', JObj [(''type'', capEMPTY e), (''size'', JNum 5)])]"

text \<open>
  \<^verbatim>\<open>enrichConnectorWithDefaultStyle\<close>: the default \<^verbatim>\<open>meta\<close> is never used, since
  \<^verbatim>\<open>buildConnector\<close> has given the connector a \<^verbatim>\<open>meta\<close> before.
\<close>

definition enrichConnectorWithDefaultStyle :: "env \<Rightarrow> connector \<Rightarrow> connector" where
  "enrichConnectorWithDefaultStyle e c =
     c\<lparr>conn_props := extendObject (conn_props c) (defaultConnectorStyle e),
       conn_meta := (case conn_meta c of
                       None \<Rightarrow> Some \<lparr>sourceItemId = None, points = None, conn_selected = False\<rparr>
                     | Some m \<Rightarrow> Some m)\<rparr>"

text \<open>
  \<^verbatim>\<open>indexDestinationToSource\<close>. Under a key that \<^verbatim>\<open>_destinationToSourceLookup\<close>
  inherits, the value read is truthy, so no list is created, and it is no array:
  \<^verbatim>\<open>_.indexOf\<close> of lodash reads its \<^verbatim>\<open>length\<close> and, when that is positive, compares
  its elements \<^verbatim>\<open>value[0]\<close>, ..., which are \<^verbatim>\<open>undefined\<close>, with the source id. So
  the index is 0 when the source id is \<^verbatim>\<open>undefined\<close> and the inherited function has a
  parameter, and nothing happens; otherwise the index is -1 and the call of \<^verbatim>\<open>push\<close>,
  which the value does not have, throws.
\<close>

definition indexDestinationToSource ::
  "string option \<Rightarrow> string option \<Rightarrow> container \<Rightarrow> error option \<times> container" where
  "indexDestinationToSource sourceId destinationId s =
     (case getProperty (destinationToSourceLookup s) (key_of destinationId) of
        Absent \<Rightarrow>
          (None, s\<lparr>destinationToSourceLookup :=
                       (destinationToSourceLookup s)(key_of destinationId := Some [sourceId])\<rparr>)
      | Own l \<Rightarrow>
          (None, if sourceId \<in> set l then s
                 else s\<lparr>destinationToSourceLookup :=
                          (destinationToSourceLookup s)(key_of destinationId := Some (l @ [sourceId]))\<rparr>)
      | Inherited \<Rightarrow>
          (if sourceId = None \<and> 0 < inheritedLength (key_of destinationId) then (None, s)
           else (Some TypeError, s)))"

definition connectorAt :: "item list \<Rightarrow> path \<times> nat \<Rightarrow> connector option" where
  "connectorAt items r =
     (case item_at items (fst r) of
        None \<Rightarrow> None
      | Some it \<Rightarrow> (if snd r < length (connectors (itemFields it))
                    then Some (connectors (itemFields it) ! snd r) else None))"

definition storeConnector :: "path \<times> nat \<Rightarrow> connector \<Rightarrow> container \<Rightarrow> container" where
  "storeConnector r c s =
     s\<lparr>scheme_items :=
         update_at (map_fields (\<lambda>f. f\<lparr>connectors := (connectors f)[snd r := c]\<rparr>)) (fst r)
           (scheme_items s)\<rparr>"

text \<open>
  \<^verbatim>\<open>buildConnector(sourceItem, connector)\<close>: the source item is the item at
  \<open>sp\<close>, the connector its \<open>ci\<close>-th connector. \<open>prepareConnector\<close> is the
  connector after the assignments to \<^verbatim>\<open>meta\<close>, \<^verbatim>\<open>id\<close>,
  \<^verbatim>\<open>meta.sourceItemId\<close> and the default style. The connector object is written
  back before the points are computed, so that the state at an exception is the state
  the JavaScript has reached. \<open>finishConnector\<close> is the rest of the function from
  \<^verbatim>\<open>if (connector.reroutes && ...)\<close> on, for a destination that is an item or
  \<^verbatim>\<open>undefined\<close>.

  When \<^verbatim>\<open>this.itemMap[connector.itemId]\<close> is an inherited value, it is truthy and its
  \<^verbatim>\<open>id\<close> is \<^verbatim>\<open>undefined\<close>: the source is indexed under that key, and then reading
  \<^verbatim>\<open>destinationItem.area.x\<close> throws, directly when there are no reroutes and inside
  \<^verbatim>\<open>findEdgePoint\<close> (the value has no \<^verbatim>\<open>shape\<close>) when there are; before that only
  the edge point of the source is computed, which changes nothing.
\<close>

definition metaOf :: "connector \<Rightarrow> connector_meta" where
  "metaOf c =
     (case conn_meta c of
        None \<Rightarrow> \<lparr>sourceItemId = None, points = None, conn_selected = False\<rparr>
      | Some m \<Rightarrow> m)"

definition prepareConnector :: "env \<Rightarrow> container \<Rightarrow> item \<Rightarrow> connector \<Rightarrow> connector" where
  "prepareConnector e s sourceItem c =
     enrichConnectorWithDefaultStyle e
       (c\<lparr>conn_id := (if truthy (conn_id c) then conn_id c else Some (generate e (idCounter s))),
          conn_meta := Some ((metaOf c)\<lparr>sourceItemId := item_id (itemFields sourceItem)\<rparr>)\<rparr>)"

definition finishConnector ::
  "env \<Rightarrow> path \<Rightarrow> nat \<Rightarrow> item \<Rightarrow> connector \<Rightarrow> item option \<Rightarrow> container
   \<Rightarrow> error option \<times> container" where
  "finishConnector e sp ci sourceItem c2 destinationItem s2 =
     (case connectorPoints e sourceItem c2 destinationItem of
        Inl err \<Rightarrow> (Some err, s2)
      | Inr pts \<Rightarrow>
          (None, (storeConnector (sp, ci) (c2\<lparr>conn_meta := Some ((metaOf c2)\<lparr>points := Some pts\<rparr>)\<rparr>) s2)
                   \<lparr>connectorsMap := (connectorsMap s2)(key_of (conn_id c2) := Some (sp, ci))\<rparr>))"

definition buildConnector :: "env \<Rightarrow> path \<Rightarrow> nat \<Rightarrow> container \<Rightarrow> error option \<times> container" where
  "buildConnector e sp ci s =
     (case item_at (scheme_items s) sp of
        None \<Rightarrow> (None, s)
      | Some sourceItem0 \<Rightarrow>
          (case connectorAt (scheme_items s) (sp, ci) of
             None \<Rightarrow> (None, s)
           | Some c0 \<Rightarrow>
               (let c2 = prepareConnector e s sourceItem0 c0;
                    sourceItem = map_fields (\<lambda>f. f\<lparr>connectors := (connectors f)[ci := c2]\<rparr>) sourceItem0;
                    s1 = storeConnector (sp, ci) c2
                           (s\<lparr>idCounter := (if truthy (conn_id c0) then idCounter s else Suc (idCounter s))\<rparr>)
                in (case findItemById s1 (itemId c2) of
                      Absent \<Rightarrow> finishConnector e sp ci sourceItem c2 None s1
                    | Own d \<Rightarrow>
                        andThen (indexDestinationToSource (item_id (itemFields sourceItem))
                                   (item_id (itemFields d)) s1)
                          (finishConnector e sp ci sourceItem c2 (Some d))
                    | Inherited \<Rightarrow>
                        (Some TypeError,
                         snd (indexDestinationToSource (item_id (itemFields sourceItem)) None s1))))))"

section \<open>Concrete inputs\<close>

text \<open>
  A shape registry with one shape, \<^verbatim>\<open>line\<close>, whose outline is the segment from
  \<open>(0,0)\<close> to \<open>(4,0)\<close>, measured as a browser measures the path
  \<^verbatim>\<open>M 0 0 L 4 0\<close>; generated ids are \<^verbatim>\<open>g\<close>, \<^verbatim>\<open>gx\<close>, \<^verbatim>\<open>gxx\<close>, ...
\<close>

definition lineShape :: shape where
  "lineShape = \<lparr>shape_args = [], computePath = Some (\<lambda>it. Some ''M 0 0 L 4 0'')\<rparr>"

definition exampleEnv :: env where
  "exampleEnv =
     \<lparr>shapeFind = (\<lambda>n. if n = ''line'' then Some lineShape else None),
      generate = (\<lambda>n. CHR ''g'' # replicate n CHR ''x''),
      getTotalLength = (\<lambda>p. 4),
      getPointAtLength = (\<lambda>p l. \<lparr>px = max 0 (min 4 l), py = 0\<rparr>),
      patternLINE = JStr ''line'', typeSTRAIGHT = JStr ''straight'',
      capARROW = JStr ''arrow'', capEMPTY = JStr ''empty'',
      modeSIDE_PANEL = JStr ''side-panel'', schemeGetItems = None\<rparr>"

definition lineItem :: item where
  "lineItem =
     Item \<lparr>item_id = Some ''s'',
           item_area = Some \<lparr>area_x = 0, area_y = 0, area_w = 4, area_h = 0, area_r = 0\<rparr>,
           connectors = [], item_group = None, item_shape = Some ''line'',
           item_meta = Some \<lparr>collapsed = False, collapseBitMask = 0,
             meta_transform = Some zeroTransform, ancestorIds = Some [], parentId = None,
             selected = False, hovered = False\<rparr>,
           item_props = []\<rparr> []"

definition plainConnector :: "string option \<Rightarrow> reroute list \<Rightarrow> connector" where
  "plainConnector d rs =
     \<lparr>conn_id = None, itemId = d, reroutes = rs, conn_props = [], conn_meta = None\<rparr>"

definition emptyContainer :: "item list \<Rightarrow> container" where
  "emptyContainer items =
     \<lparr>scheme_items = items, selectedItems = [], selectedConnectors = [],
      itemMap = (\<lambda>k. None), itemArray = [], destinationToSourceLookup = (\<lambda>k. None),
      copyBuffer = [], connectorsMap = (\<lambda>k. None), revision = 0, idCounter = 0,
      events = []\<rparr>"

text \<open>
  A container that has indexed nothing, whose only item has one connector without
  reroutes to the item id \<open>d\<close>.
\<close>

definition danglingContainer :: "string \<Rightarrow> container" where
  "danglingContainer d =
     emptyContainer [map_fields (\<lambda>f. f\<lparr>connectors := [plainConnector (Some d) []]\<rparr>) lineItem]"

section \<open>Reindexing\<close>

definition areaOrDefault :: "item_fields \<Rightarrow> area" where
  "areaOrDefault f =
     (case item_area f of
        None \<Rightarrow> \<lparr>area_x = 0, area_y = 0, area_w = 0, area_h = 0, area_r = 0\<rparr>
      | Some a \<Rightarrow> a)"

definition shapeDefaults :: "env \<Rightarrow> item_fields \<Rightarrow> (string \<times> jsval) list" where
  "shapeDefaults e f =
     (if truthy (item_shape f)
      then (case shapeFind e (key_of (item_shape f)) of None \<Rightarrow> [] | Some sh \<Rightarrow> shape_args sh)
      else [])"

definition defaultItemProps :: "env \<Rightarrow> item_fields \<Rightarrow> (string \<times> jsval) list" where
  "defaultItemProps e f =
     [(''opacity'', JNum 100), (''selfOpacity'', JNum 100), (''visible'', JBool True),
      (''blendMode'', JStr ''normal''), (''text'', JStr []), (''description'', JStr []),
      (''interactionMode'', modeSIDE_PANEL e), (''shapeProps'', JObj (shapeDefaults e f)),
      (''behavior'', JArr [])]"

definition enrichItemWithDefaults :: "env \<Rightarrow> item_fields \<Rightarrow> item_fields" where
  "enrichItemWithDefaults e f =
     f\<lparr>item_area := Some (areaOrDefault f),
       item_props := extendObject (item_props f) (defaultItemProps e f)\<rparr>"

definition metaOrNew :: "item_fields \<Rightarrow> item_meta" where
  "metaOrNew f =
     (case item_meta f of
        None \<Rightarrow> \<lparr>collapsed = False, collapseBitMask = 0, meta_transform = None,
                 ancestorIds = None, parentId = None, selected = False, hovered = False\<rparr>
      | Some m \<Rightarrow> m)"

text \<open>
  \<^verbatim>\<open>visitItems\<close>. The callback receives the reference (path) of the item, its own
  fields, the transform, the parent's fields and the ancestor ids, and returns the
  fields as it leaves them. It is modelled for callbacks that leave the item with an
  area, as the callback of \<^verbatim>\<open>reindexItems\<close> does: \<open>areaOrDefault\<close> then reads that
  area. The left shift of JavaScript works on 32 bits with the count taken modulo 32.
\<close>

fun visitItems ::
  "(path \<Rightarrow> item_fields \<Rightarrow> transform \<Rightarrow> item_fields option \<Rightarrow> string option list \<Rightarrow> 'acc \<Rightarrow> item_fields \<times> 'acc)
   \<Rightarrow> item list \<Rightarrow> nat \<Rightarrow> path \<Rightarrow> transform \<Rightarrow> item_fields option \<Rightarrow> string option list \<Rightarrow> 'acc
   \<Rightarrow> item list \<times> 'acc" where
  "visitItems callback [] i prefix t parentItem ancestors acc = ([], acc)"
| "visitItems callback (Item f cs # rest) i prefix t parentItem ancestors acc =
     (let cosa = cos (tf_r t * pi / 180);
          sina = sin (tf_r t * pi / 180);
          (f', acc1) = callback (prefix @ [i]) f t parentItem ancestors acc;
          a = areaOrDefault f';
          (cs', acc2) = visitItems callback cs 0 (prefix @ [i])
                          \<lparr>tf_x = tf_x t + area_x a * cosa - area_y a * sina,
                           tf_y = tf_y t + area_x a * sina + area_y a * cosa,
                           tf_r = tf_r t + area_r a\<rparr>
                          (Some f') (ancestors @ [item_id f']) acc1;
          (rest', acc3) = visitItems callback rest (Suc i) prefix t parentItem ancestors acc2
      in (Item f' cs' # rest', acc3))"

definition reindexItem ::
  "env \<Rightarrow> path \<Rightarrow> item_fields \<Rightarrow> transform \<Rightarrow> item_fields option \<Rightarrow> string option list
   \<Rightarrow> path list \<times> (string \<Rightarrow> path option) \<times> path list
   \<Rightarrow> item_fields \<times> path list \<times> (string \<Rightarrow> path option) \<times> path list" where
  "reindexItem e p f t parentItem ancestors acc =
     (let f1 = enrichItemWithDefaults e f;
          m = metaOrNew f1;
          mask = (case parentItem of
                    None \<Rightarrow> 0
                  | Some pf \<Rightarrow>
                      push_bit (length ancestors mod 32) (collapseBitMask (metaOrNew pf))
                        OR (if collapsed (metaOrNew pf) then 1 else 0));
          m' = m\<lparr>collapseBitMask := mask, meta_transform := Some t,
                 ancestorIds := Some ancestors,
                 parentId := (case parentItem of None \<Rightarrow> None | Some pf \<Rightarrow> item_id pf)\<rparr>;
          f2 = f1\<lparr>item_meta := Some m'\<rparr>
      in (f2,
          fst acc @ [p],
          (if truthy (item_id f2) then (fst (snd acc))(key_of (item_id f2) := Some p)
           else fst (snd acc)),
          (if connectors f2 \<noteq> [] then snd (snd acc) @ [p] else snd (snd acc))))"

text \<open>
  \<^verbatim>\<open>reindexItems\<close>: \<open>reindexItem\<close> is the callback given to \<^verbatim>\<open>visitItems\<close>, with
  \<^verbatim>\<open>_itemArray\<close>, \<^verbatim>\<open>itemMap\<close> and \<^verbatim>\<open>itemsWithConnectors\<close> as its accumulator. The
  scheme is taken to hold an \<^verbatim>\<open>items\<close> array (without one \<^verbatim>\<open>reindexItems\<close> returns
  after clearing the maps). \<^verbatim>\<open>revision\<close> is incremented when the connectors have been
  built without exception.
\<close>

definition connectorCount :: "container \<Rightarrow> path \<Rightarrow> nat" where
  "connectorCount s p =
     (case item_at (scheme_items s) p of None \<Rightarrow> 0 | Some it \<Rightarrow> length (connectors (itemFields it)))"

definition buildItemConnectors :: "env \<Rightarrow> path \<Rightarrow> container \<Rightarrow> error option \<times> container" where
  "buildItemConnectors e p s = forEachM (buildConnector e p) [0..<connectorCount s p] s"

definition reindexItems :: "env \<Rightarrow> container \<Rightarrow> error option \<times> container" where
  "reindexItems e s =
     (let visited = visitItems (reindexItem e) (scheme_items s) 0 [] zeroTransform None []
                      ([], (\<lambda>k. None), []);
          s1 = s\<lparr>scheme_items := fst visited,
                 itemMap := fst (snd (snd visited)),
                 destinationToSourceLookup := (\<lambda>k. None),
                 itemArray := fst (snd visited),
                 connectorsMap := (\<lambda>k. None)\<rparr>
      in (case forEachM (buildItemConnectors e) (snd (snd (snd visited))) s1 of
            (None, s2) \<Rightarrow> (None, s2\<lparr>revision := Suc (revision s2)\<rparr>)
          | (Some err, s2) \<Rightarrow> (Some err, s2)))"

definition newContainer :: "env \<Rightarrow> item list \<Rightarrow> error option \<times> container" where
  "newContainer e items = reindexItems e (emptyContainer items)"

section \<open>Selection\<close>

definition emit :: "event \<Rightarrow> container \<Rightarrow> error option \<times> container" where
  "emit ev s = (None, s\<lparr>events := events s @ [ev]\<rparr>)"

definition idOf :: "container \<Rightarrow> path \<Rightarrow> string option" where
  "idOf s p = (case item_at (scheme_items s) p of None \<Rightarrow> None | Some it \<Rightarrow> item_id (itemFields it))"

definition groupOf :: "container \<Rightarrow> path \<Rightarrow> string option" where
  "groupOf s p = (case item_at (scheme_items s) p of None \<Rightarrow> None | Some it \<Rightarrow> item_group (itemFields it))"

definition metaAt :: "container \<Rightarrow> path \<Rightarrow> item_meta option" where
  "metaAt s p = (case item_at (scheme_items s) p of None \<Rightarrow> None | Some it \<Rightarrow> item_meta (itemFields it))"

text \<open>The assignment \<^verbatim>\<open>item.meta.selected = b\<close>; it throws on an item without meta.\<close>

definition setSelected :: "bool \<Rightarrow> path \<Rightarrow> container \<Rightarrow> error option \<times> container" where
  "setSelected b p s =
     (case metaAt s p of
        None \<Rightarrow> (Some TypeError, s)
      | Some m \<Rightarrow>
          (None, s\<lparr>scheme_items :=
                     update_at (map_fields (\<lambda>f. f\<lparr>item_meta := Some (m\<lparr>selected := b\<rparr>)\<rparr>)) p
                       (scheme_items s)\<rparr>))"

definition ancestorDepth :: "container \<Rightarrow> path \<Rightarrow> nat" where
  "ancestorDepth s p =
     (case metaAt s p of
        None \<Rightarrow> 0
      | Some m \<Rightarrow> (case ancestorIds m of None \<Rightarrow> 0 | Some a \<Rightarrow> length a))"

text \<open>
  \<^verbatim>\<open>sortSelectedItemsByAncestors\<close>: the comparator reads \<^verbatim>\<open>a.meta.ancestorIds\<close> of
  every element once the array has two elements; the sort is stable.
\<close>

definition sortSelectedItemsByAncestors :: "container \<Rightarrow> error option \<times> container" where
  "sortSelectedItemsByAncestors s =
     (if 2 \<le> length (selectedItems s) \<and> list_ex (\<lambda>p. metaAt s p = None) (selectedItems s)
      then (Some TypeError, s)
      else (None, s\<lparr>selectedItems := sort_key (ancestorDepth s) (selectedItems s)\<rparr>))"

definition selectItemInclusive :: "path \<Rightarrow> container \<Rightarrow> error option \<times> container" where
  "selectItemInclusive p s =
     (if p \<in> set (selectedItems s) then sortSelectedItemsByAncestors s
      else andThen (setSelected True p (s\<lparr>selectedItems := selectedItems s @ [p]\<rparr>))
             sortSelectedItemsByAncestors)"

definition deselectOther :: "path \<Rightarrow> path \<Rightarrow> container \<Rightarrow> error option \<times> container" where
  "deselectOther p q s =
     (if idOf s q \<noteq> idOf s p
      then andThen (setSelected False q s) (emit (ItemDeselected (idOf s q)))
      else (None, s))"

definition selectGroupMember :: "path \<Rightarrow> path \<Rightarrow> container \<Rightarrow> error option \<times> container" where
  "selectGroupMember p q s =
     (if groupOf s q = groupOf s p \<and> idOf s q \<noteq> idOf s p
      then andThen (selectItemInclusive q s) (emit (ItemSelected (idOf s q)))
      else (None, s))"

text \<open>The references of the elements of \<^verbatim>\<open>this.scheme.items\<close>: the root items.\<close>

definition rootRefs :: "container \<Rightarrow> path list" where
  "rootRefs s = map (\<lambda>i. [i]) [0..<length (scheme_items s)]"

definition selectItem :: "path \<Rightarrow> bool \<Rightarrow> container \<Rightarrow> error option \<times> container" where
  "selectItem p inclusive s =
     andThen
       (if inclusive
        then andThen (selectItemInclusive p s) (emit (ItemSelected (idOf s p)))
        else andThen (forEachM (deselectOther p) (selectedItems s) s)
               (\<lambda>s1. andThen (setSelected True p s1)
                  (\<lambda>s2. emit (ItemSelected (idOf s2 p)) (s2\<lparr>selectedItems := [p]\<rparr>))))
       (\<lambda>s3. if truthy (groupOf s3 p)
              then forEachM (selectGroupMember p) (rootRefs s3) s3
              else (None, s3))"

definition deselectOne :: "path \<Rightarrow> container \<Rightarrow> error option \<times> container" where
  "deselectOne q s = andThen (setSelected False q s) (emit (ItemDeselected (idOf s q)))"

definition deselectAllItems :: "container \<Rightarrow> error option \<times> container" where
  "deselectAllItems s =
     andThen (forEachM deselectOne (selectedItems s) s)
       (\<lambda>s1. (None, s1\<lparr>selectedItems := []\<rparr>))"

section \<open>Groups\<close>

definition setGroup :: "string option \<Rightarrow> path \<Rightarrow> container \<Rightarrow> container" where
  "setGroup g p s =
     s\<lparr>scheme_items := update_at (map_fields (\<lambda>f. f\<lparr>item_group := g\<rparr>)) p (scheme_items s)\<rparr>"

definition ungroupItem :: "env \<Rightarrow> path \<Rightarrow> container \<Rightarrow> error option \<times> container" where
  "ungroupItem e p s =
     (if truthy (groupOf s p)
      then (let group = groupOf s p;
                s1 = setGroup None p s
            in (case schemeGetItems e of
                  None \<Rightarrow> (Some TypeError, s1)
                | Some getItems \<Rightarrow>
                    (let leftoverGroupItems =
                           filter (\<lambda>q. groupOf s1 q = group) (getItems (scheme_items s1))
                     in (if length leftoverGroupItems = 1
                         then (None, setGroup None (leftoverGroupItems ! 0) s1)
                         else (None, s1)))))
      else (None, s))"

section \<open>Re-parenting\<close>

text \<open>
  \<^verbatim>\<open>itemsArray.splice(index, 1)\<close> and \<^verbatim>\<open>newItemsArray.splice(position, 0, item)\<close>
  on the array of root items (\<open>None\<close>) or on the \<^verbatim>\<open>childItems\<close> of the item at a
  path.
\<close>

definition removeChildAt :: "path option \<Rightarrow> nat \<Rightarrow> item list \<Rightarrow> item list" where
  "removeChildAt owner i items =
     (case owner of
        None \<Rightarrow> take i items @ drop (Suc i) items
      | Some pp \<Rightarrow>
          update_at (\<lambda>ow. Item (itemFields ow) (take i (childItems ow) @ drop (Suc i) (childItems ow)))
            pp items)"

definition insertChildAt :: "path option \<Rightarrow> nat \<Rightarrow> item \<Rightarrow> item list \<Rightarrow> item list" where
  "insertChildAt owner position it items =
     (case owner of
        None \<Rightarrow> take position items @ it # drop position items
      | Some pp \<Rightarrow>
          update_at (\<lambda>ow. Item (itemFields ow)
                            (take position (childItems ow) @ it # drop position (childItems ow)))
            pp items)"

text \<open>
  Where a reference leads after the element at path \<open>r\<close> has been spliced out of its
  array: later siblings move down by one; a reference into the removed element leads to
  no place of the forest any more (\<open>None\<close>).
\<close>

fun refAfterRemoval :: "path \<Rightarrow> path \<Rightarrow> path option" where
  "refAfterRemoval [] q = Some q"
| "refAfterRemoval r [] = Some []"
| "refAfterRemoval [k] (j # q) =
     (if j = k then None else if k < j then Some ((j - 1) # q) else Some (j # q))"
| "refAfterRemoval (k # r) (j # q) =
     (if j = k then map_option ((#) j) (refAfterRemoval r q) else Some (j # q))"

fun findIndexById :: "string option \<Rightarrow> item list \<Rightarrow> nat option" where
  "findIndexById i [] = None"
| "findIndexById i (it # its) =
     (if item_id (itemFields it) = i then Some 0 else map_option Suc (findIndexById i its))"

text \<open>\<^verbatim>\<open>it.meta.transform.r + it.area.r\<close>, which throws when a part is missing.\<close>

definition angleOf :: "item \<Rightarrow> error + real" where
  "angleOf it =
     (case item_meta (itemFields it) of
        None \<Rightarrow> Inl TypeError
      | Some m \<Rightarrow>
          (case meta_transform m of
             None \<Rightarrow> Inl TypeError
           | Some t \<Rightarrow>
               (case item_area (itemFields it) of
                  None \<Rightarrow> Inl TypeError
                | Some a \<Rightarrow> Inr (tf_r t + area_r a))))"

definition hasTransform :: "item \<Rightarrow> bool" where
  "hasTransform it =
     (case item_meta (itemFields it) of None \<Rightarrow> False | Some m \<Rightarrow> meta_transform m \<noteq> None)"

text \<open>
  An inherited value found in place of an item has no \<^verbatim>\<open>area\<close> and no \<^verbatim>\<open>meta\<close>:
  \<^verbatim>\<open>worldPointOnItem\<close> returns the origin for it, and reading \<^verbatim>\<open>item.meta.parentId\<close>,
  \<^verbatim>\<open>otherItem.meta.ancestorIds\<close> or \<^verbatim>\<open>parentItem.meta.transform\<close> throws.

  The second half of \<^verbatim>\<open>remountItemInsideOtherItem\<close>, from the two \<^verbatim>\<open>splice\<close> calls
  on: \<open>owner\<close> is the array the item is taken from, \<open>index\<close> its index there,
  \<open>otherRef\<close> the new parent (\<open>None\<close> for the root). When ids are not unique the
  element spliced out may be another object than \<open>item\<close>; the JavaScript then keeps one
  object at two places of the forest, where the model keeps two equal values.
\<close>

definition moveItem ::
  "env \<Rightarrow> item \<Rightarrow> path option \<Rightarrow> nat \<Rightarrow> path option \<Rightarrow> nat \<Rightarrow> point \<Rightarrow> real \<Rightarrow> container
   \<Rightarrow> error option \<times> container" where
  "moveItem e it owner index otherRef position newLocalPoint angleCorrection s =
     (let removed = (case owner of None \<Rightarrow> [index] | Some pp \<Rightarrow> pp @ [index]);
          items1 = removeChildAt owner index (scheme_items s);
          place = (\<lambda>v. case otherRef of
                          None \<Rightarrow> insertChildAt None position v items1
                        | Some op \<Rightarrow>
                            (case refAfterRemoval removed op of
                               None \<Rightarrow> items1
                             | Some op' \<Rightarrow> insertChildAt (Some op') position v items1))
      in (case item_area (itemFields it) of
            None \<Rightarrow> (Some TypeError, s\<lparr>scheme_items := place it\<rparr>)
          | Some a \<Rightarrow>
              reindexItems e
                (s\<lparr>scheme_items :=
                     place (map_fields
                        (\<lambda>f. f\<lparr>item_area := Some (a\<lparr>area_x := px newLocalPoint,
                                                      area_y := py newLocalPoint,
                                                      area_r := area_r a + angleCorrection\<rparr>)\<rparr>) it)\<rparr>)))"

text \<open>
  \<^verbatim>\<open>otherItem && _.indexOf(otherItem.meta.ancestorIds, item.id) >= 0\<close>, where
  \<open>Absent\<close> stands for the \<^verbatim>\<open>null\<close> of a move to the root, and an inherited value
  has no \<^verbatim>\<open>meta\<close>.
\<close>

definition isMovedIntoOwnChild :: "string option \<Rightarrow> item lookup \<Rightarrow> error + bool" where
  "isMovedIntoOwnChild movedItemId otherItem =
     (case otherItem of
        Absent \<Rightarrow> Inr False
      | Inherited \<Rightarrow> Inl TypeError
      | Own ot \<Rightarrow>
          (case item_meta (itemFields ot) of
             None \<Rightarrow> Inl TypeError
           | Some om \<Rightarrow>
               Inr (movedItemId \<in> set (case ancestorIds om of None \<Rightarrow> [] | Some a \<Rightarrow> a))))"

definition angleCorrectionOf :: "item option \<Rightarrow> item option \<Rightarrow> error + real" where
  "angleCorrectionOf parentItem otherItem =
     bindE (case parentItem of None \<Rightarrow> Inr 0 | Some pa \<Rightarrow> angleOf pa)
       (\<lambda>plus. bindE (case otherItem of
                         None \<Rightarrow> Inr 0
                       | Some ot \<Rightarrow> (if hasTransform ot then angleOf ot else Inr 0))
                 (\<lambda>minus. Inr (plus - minus)))"

definition remountChecked ::
  "env \<Rightarrow> string option \<Rightarrow> item \<Rightarrow> path option \<Rightarrow> item option \<Rightarrow> nat \<Rightarrow> container
   \<Rightarrow> error option \<times> container" where
  "remountChecked e movedId it otherRef otherItem position s =
     (let worldPoint = worldPointOnItem 0 0 it;
          newLocalPoint = (case otherItem of
                             None \<Rightarrow> worldPoint
                           | Some ot \<Rightarrow> localPointOnItem (px worldPoint) (py worldPoint) ot)
      in (case item_meta (itemFields it) of
            None \<Rightarrow> (Some TypeError, s)
          | Some m \<Rightarrow>
              (if truthy (parentId m) \<and> findItemById s (parentId m) = Absent then (None, s)
               else if truthy (parentId m) \<and> findItemById s (parentId m) = Inherited
               then (Some TypeError, s)
               else
                 (let owner = (if truthy (parentId m) then itemMap s (key_of (parentId m)) else None);
                      parentItem = (if truthy (parentId m)
                                    then (case findItemById s (parentId m) of
                                            Own pa \<Rightarrow> Some pa | _ \<Rightarrow> None)
                                    else None);
                      itemsArray = (case parentItem of
                                      None \<Rightarrow> scheme_items s
                                    | Some pa \<Rightarrow> childItems pa)
                  in (case angleCorrectionOf parentItem otherItem of
                        Inl err \<Rightarrow> (Some err, s)
                      | Inr angleCorrection \<Rightarrow>
                          (case findIndexById movedId itemsArray of
                             None \<Rightarrow> (None, s)
                           | Some index \<Rightarrow>
                               moveItem e it owner index otherRef position newLocalPoint
                                 angleCorrection s))))))"

definition remountItemInsideOtherItem ::
  "env \<Rightarrow> string option \<Rightarrow> string option \<Rightarrow> nat \<Rightarrow> container \<Rightarrow> error option \<times> container" where
  "remountItemInsideOtherItem e movedId otherItemId position s =
     (if findItemById s movedId = Absent then (None, s)
      else if truthy otherItemId \<and> findItemById s otherItemId = Absent then (None, s)
      else
        (let item = findItemById s movedId;
             otherRef = (if truthy otherItemId then itemMap s (key_of otherItemId) else None);
             otherItem = (if truthy otherItemId then findItemById s otherItemId else Absent)
         in (case isMovedIntoOwnChild (case item of Own it \<Rightarrow> item_id (itemFields it) | _ \<Rightarrow> None)
                    otherItem of
               Inl err \<Rightarrow> (Some err, s)
             | Inr True \<Rightarrow> (None, s)
             | Inr False \<Rightarrow>
                 (case item of
                    Own it \<Rightarrow>
                      remountChecked e movedId it otherRef
                        (case otherItem of Own ot \<Rightarrow> Some ot | _ \<Rightarrow> None) position s
                  | _ \<Rightarrow> (Some TypeError, s)))))"

section \<open>Copy and paste\<close>




fun copyItem :: "env \<Rightarrow> item \<Rightarrow> nat \<Rightarrow> item \<times> nat"
  and copyItems :: "env \<Rightarrow> item list \<Rightarrow> nat \<Rightarrow> item list \<times> nat" where
  "copyItem e (Item f cs) n =
     (let (cs', n') = copyItems e cs (Suc n)
      in (Item \<lparr>item_id = Some (generate e n), item_area = item_area f, connectors = [],
                item_group = item_group f, item_shape = item_shape f,
                item_meta = Some \<lparr>collapsed = False, collapseBitMask = 0, meta_transform = None,
                                   ancestorIds = None, parentId = None, selected = False,
                                   hovered = False\<rparr>,
                item_props = item_props f\<rparr> cs', n'))"
| "copyItems e [] n = ([], n)"
| "copyItems e (c # cs) n =
     (let (c', n1) = copyItem e c n;
          (cs', n2) = copyItems e cs n1
      in (c' # cs', n2))"

definition copySelectedItems :: "container \<Rightarrow> container" where
  "copySelectedItems s = s\<lparr>copyBuffer := selectedItems s\<rparr>"

text \<open>
  The body of the loop of \<^verbatim>\<open>pasteSelectedItems\<close>; \<open>copied\<close> holds the keys of
  \<^verbatim>\<open>copiedItemIds\<close>, all with the value 1. The assignment
  \<^verbatim>\<open>copiedItemIds[item.id] = 1\<close> adds no key when the id is \<^verbatim>\<open>__proto__\<close>, and no
  inherited value is \<^verbatim>\<open>=== 1\<close>. \<^verbatim>\<open>_.find\<close> returns the first ancestor id whose key is
  there, and the item is skipped when that id is truthy. \<open>placedCopy\<close> is the new item after
  the assignments to \<^verbatim>\<open>newItem.area\<close>: the rotation added is
  \<^verbatim>\<open>item.meta.transform.r\<close> when the item has a transform, which is the rotation of
  \<open>transformOf\<close>, zero otherwise.
\<close>

definition placedCopy :: "item \<Rightarrow> item \<Rightarrow> item" where
  "placedCopy it newItem =
     (let worldPoint = worldPointOnItem 0 0 it
      in map_fields
           (\<lambda>f. f\<lparr>item_area :=
                   map_option (\<lambda>a. a\<lparr>area_x := px worldPoint, area_y := py worldPoint,
                                         area_r := area_r a + tf_r (transformOf it)\<rparr>)
                     (item_area f)\<rparr>)
           newItem)"

definition pasteOne :: "env \<Rightarrow> path \<Rightarrow> string list \<times> container \<Rightarrow> error option \<times> string list \<times> container" where
  "pasteOne e p cs =
     (let copied = fst cs; s = snd cs
      in (case item_at (scheme_items s) p of
            None \<Rightarrow> (None, cs)
          | Some it \<Rightarrow>
              (case item_meta (itemFields it) of
                 None \<Rightarrow> (Some TypeError, cs)
               | Some m \<Rightarrow>
                   (if (case find (\<lambda>a. key_of a \<in> set copied)
                               (case ancestorIds m of None \<Rightarrow> [] | Some a \<Rightarrow> a) of
                          None \<Rightarrow> False
                        | Some a \<Rightarrow> truthy a)
                    then (None, cs)
                    else
                      (let copied' = (if key_of (item_id (itemFields it)) = ''__proto__'' then copied
                                      else key_of (item_id (itemFields it)) # copied);
                           cp = copyItem e it (idCounter s);
                           s1 = s\<lparr>idCounter := snd cp\<rparr>
                       in (if item_area (itemFields (fst cp)) = None
                           then (Some TypeError, copied', s1)
                           else
                             (let r = selectItem p True
                                        (s1\<lparr>scheme_items := scheme_items s1 @ [placedCopy it (fst cp)]\<rparr>)
                              in (fst r, copied', snd r))))))))"

definition pasteSelectedItems :: "env \<Rightarrow> container \<Rightarrow> error option \<times> container" where
  "pasteSelectedItems e s =
     andThen (deselectAllItems s)
       (\<lambda>s1. (case forEachM (pasteOne e) (copyBuffer s1) ([], s1) of
                 (None, cs) \<Rightarrow> reindexItems e (snd cs)
               | (Some err, cs) \<Rightarrow> (Some err, snd cs)))"

section \<open>Connecting items\<close>

definition newConnector :: "env \<Rightarrow> nat \<Rightarrow> string option \<Rightarrow> connector" where
  "newConnector e n d =
     \<lparr>conn_id = Some (generate e n), itemId = d, reroutes = [],
      conn_props = [(''style'', JObj [(''color'', JStr ''#333''), (''width'', JNum 1),
                       (''pattern'', JStr ''line''),
                       (''source'', JObj [(''type'', JStr ''empty''), (''size'', JNum 5)]),
                       (''destination'', JObj [(''type'', JStr ''arrow''), (''size'', JNum 5)])])],
      conn_meta = None\<rparr>"

definition connectItems :: "env \<Rightarrow> path \<Rightarrow> path \<Rightarrow> container \<Rightarrow> error option \<times> container" where
  "connectItems e sp dp s =
     (case item_at (scheme_items s) sp of
        None \<Rightarrow> (None, s)
      | Some sourceItem \<Rightarrow>
          (case item_at (scheme_items s) dp of
             None \<Rightarrow> (None, s)
           | Some destinationItem \<Rightarrow>
               (if sp \<noteq> dp \<and> truthy (item_id (itemFields sourceItem))
                    \<and> truthy (item_id (itemFields destinationItem))
                then (if list_ex (\<lambda>c. itemId c = item_id (itemFields destinationItem))
                           (connectors (itemFields sourceItem))
                      then (None, s)
                      else buildConnector e sp (length (connectors (itemFields sourceItem)))
                             (s\<lparr>idCounter := Suc (idCounter s),
                                scheme_items :=
                                  update_at (map_fields (\<lambda>f. f\<lparr>connectors := connectors f
                                       @ [newConnector e (idCounter s) (item_id (itemFields destinationItem))]\<rparr>))
                                    sp (scheme_items s)\<rparr>))
                else (None, s))))"

section \<open>Scenarios\<close>

text \<open>
  The scenario of the nested re-parenting: item \<^verbatim>\<open>I\<close> at local \<open>(10, 10)\<close> inside parent
  \<^verbatim>\<open>P\<close>, which sits at the world origin and is rotated by 90 degrees.
\<close>

definition nestedItems :: "area \<Rightarrow> area \<Rightarrow> item list" where
  "nestedItems pa ia =
     [Item \<lparr>item_id = Some ''P'', item_area = Some (pa\<lparr>area_x := 0, area_y := 0, area_r := 90\<rparr>),
             connectors = [], item_group = None, item_shape = None, item_meta = None,
             item_props = []\<rparr>
        [Item \<lparr>item_id = Some ''I'', item_area = Some (ia\<lparr>area_x := 10, area_y := 10\<rparr>),
                connectors = [], item_group = None, item_shape = None, item_meta = None,
                item_props = []\<rparr> []]]"

definition exampleArea :: area where
  "exampleArea = \<lparr>area_x = 0, area_y = 0, area_w = 20, area_h = 10, area_r = 0\<rparr>"

text \<open>
  A group \<^verbatim>\<open>g\<close> of two items, first with one member nested in the other, then with both
  members at the root.
\<close>

definition groupedItem :: "string \<Rightarrow> item list \<Rightarrow> item" where
  "groupedItem i cs =
     Item \<lparr>item_id = Some i,
           item_area = Some \<lparr>area_x = 0, area_y = 0, area_w = 10, area_h = 10, area_r = 0\<rparr>,
           connectors = [], item_group = Some ''g'', item_shape = None, item_meta = None,
           item_props = []\<rparr> cs"

definition nestedGroup :: "item list" where
  "nestedGroup = [groupedItem ''A'' [groupedItem ''B'' []]]"

definition flatGroup :: "item list" where
  "flatGroup = [groupedItem ''A'' [], groupedItem ''B'' []]"

text \<open>The default properties of an item without shape, and the meta data of a root item.\<close>

definition plainProps :: "env \<Rightarrow> (string \<times> jsval) list" where
  "plainProps e =
     [(''opacity'', JNum 100), (''selfOpacity'', JNum 100), (''visible'', JBool True),
      (''blendMode'', JStr ''normal''), (''text'', JStr []), (''description'', JStr []),
      (''interactionMode'', modeSIDE_PANEL e), (''shapeProps'', JObj []),
      (''behavior'', JArr [])]"

definition rootMeta :: item_meta where
  "rootMeta =
     \<lparr>collapsed = False, collapseBitMask = 0,
      meta_transform = Some \<lparr>tf_x = 0, tf_y = 0, tf_r = 0\<rparr>,
      ancestorIds = Some [], parentId = None, selected = False, hovered = False\<rparr>"


text \<open>
  The nested scenario with another id for the parent (\<open>None\<close> for a parent without
  id), after a reindex and with both items in the copy buffer.
\<close>

definition nestedUnder :: "string option \<Rightarrow> container" where
  "nestedUnder i =
     (snd (newContainer exampleEnv
        [Item \<lparr>item_id = i, item_area = Some exampleArea, connectors = [], item_group = None,
                item_shape = None, item_meta = None, item_props = []\<rparr>
           [leafItem ''I'' exampleArea]]))\<lparr>copyBuffer := [[0], [0, 0]]\<rparr>"

text \<open>
  The same collaborators with a scheme object that does carry a \<^verbatim>\<open>getItems\<close> method,
  returning its root items.
\<close>

definition methodEnv :: env where
  "methodEnv = exampleEnv\<lparr>schemeGetItems := Some (\<lambda>items. map (\<lambda>i. [i]) [0..<length items])\<rparr>"

section \<open>Views of the forest\<close>

text \<open>
  \<open>mapItem g\<close> applies \<open>g\<close> to the fields of every item of a subtree. Three views are
  used in the statements. \<open>strip\<close> is the item up to what a reindex derives: it
  forgets the meta data of items and the id and meta data of connectors, and it fills in
  the defaults that a reindex fills in (the default area and default properties of an
  item, the default style of a connector), keeping the id, area, group, shape and
  properties of every item and the destination, reroutes and properties of every
  connector. \<open>unselected\<close> forgets the selection flags; \<open>content\<close> keeps what
  \<^verbatim>\<open>copyItem\<close> clones (area, group, shape, properties, children).
\<close>

fun mapItem :: "(item_fields \<Rightarrow> item_fields) \<Rightarrow> item \<Rightarrow> item" where
  "mapItem g (Item f cs) = Item (g f) (map (mapItem g) cs)"

definition stripConnector :: "env \<Rightarrow> connector \<Rightarrow> connector" where
  "stripConnector e c =
     c\<lparr>conn_id := None, conn_props := extendObject (conn_props c) (defaultConnectorStyle e),
       conn_meta := None\<rparr>"

definition stripFields :: "env \<Rightarrow> item_fields \<Rightarrow> item_fields" where
  "stripFields e f =
     (enrichItemWithDefaults e f)\<lparr>connectors := map (stripConnector e) (connectors f),
       item_meta := None\<rparr>"

definition strip :: "env \<Rightarrow> item \<Rightarrow> item" where
  "strip e = mapItem (stripFields e)"

definition unselectFields :: "item_fields \<Rightarrow> item_fields" where
  "unselectFields f = f\<lparr>item_meta := map_option (\<lambda>m. m\<lparr>selected := False\<rparr>) (item_meta f)\<rparr>"

definition unselected :: "item \<Rightarrow> item" where
  "unselected = mapItem unselectFields"



fun itemIds :: "item \<Rightarrow> string option list" where
  "itemIds (Item f cs) = item_id f # concat (map itemIds cs)"


definition connectorsTo :: "container \<Rightarrow> path \<Rightarrow> string option \<Rightarrow> connector list" where
  "connectorsTo s p d =
     (case item_at (scheme_items s) p of
        None \<Rightarrow> []
      | Some it \<Rightarrow> filter (\<lambda>c. itemId c = d) (connectors (itemFields it)))"



section \<open>Transform round trip\<close>

lemma rotate_back_x:
  fixes c s :: real
  assumes "s * s + c * c = 1"
  shows "(x * s + y * c) * s + (x * c - y * s) * c = x"
proof -
  have "(x * s + y * c) * s + (x * c - y * s) * c = x * (s * s + c * c)"
    by (simp add: algebra_simps)
  then show ?thesis using assms by simp
qed

lemma rotate_back_y:
  fixes c s :: real
  assumes "s * s + c * c = 1"
  shows "(x * s + y * c) * c - (x * c - y * s) * s = y"
proof -
  have "(x * s + y * c) * c - (x * c - y * s) * s = y * (s * s + c * c)"
    by (simp add: algebra_simps)
  then show ?thesis using assms by simp
qed

lemma sin_cos_unit: "sin (a::real) * sin a + cos a * cos a = 1"
  using sin_cos_squared_add [of a] by (simp add: power2_eq_square)

text \<open>
  Over the real numbers, for every item that has an area (with or without
  \<^verbatim>\<open>meta.transform\<close>) and every point \<open>(x, y)\<close>, \<open>localPointOnItem\<close> applied to the
  result of \<open>worldPointOnItem x y\<close> on the same item returns \<open>(x, y)\<close> exactly.
\<close>

lemma localPoint_of_worldPoint_reals:
  assumes "item_area (itemFields it) \<noteq> None"
  shows "localPointOnItem (px (worldPointOnItem x y it)) (py (worldPointOnItem x y it)) it
           = \<lparr>px = x, py = y\<rparr>
         \<and> \<bar>px (localPointOnItem (px (worldPointOnItem x y it)) (py (worldPointOnItem x y it)) it) - x\<bar>
             \<le> 1 / 10 ^ 6
         \<and> \<bar>py (localPointOnItem (px (worldPointOnItem x y it)) (py (worldPointOnItem x y it)) it) - y\<bar>
             \<le> 1 / 10 ^ 6"
proof -
  from assms obtain a where a: "item_area (itemFields it) = Some a" by auto
  define t where "t = transformOf it"
  define c where "c = cos ((tf_r t + area_r a) * pi / 180)"
  define s where "s = sin ((tf_r t + area_r a) * pi / 180)"
  have unit: "s * s + c * c = 1"
    unfolding s_def c_def by (rule sin_cos_unit)
  have w: "worldPointOnItem x y it =
      \<lparr>px = tf_x t + area_x a * cos (tf_r t * pi / 180) - area_y a * sin (tf_r t * pi / 180)
              + x * c - y * s,
       py = tf_y t + area_x a * sin (tf_r t * pi / 180) + area_y a * cos (tf_r t * pi / 180)
              + x * s + y * c\<rparr>"
    by (simp add: worldPointOnItem_def a Let_def t_def c_def s_def)
  have l: "localPointOnItem (px (worldPointOnItem x y it)) (py (worldPointOnItem x y it)) it =
      \<lparr>px = (x * s + y * c) * s + (x * c - y * s) * c,
       py = (x * s + y * c) * c - (x * c - y * s) * s\<rparr>"
    unfolding w by (simp add: localPointOnItem_def a Let_def t_def [symmetric] c_def [symmetric]
        s_def [symmetric])
  have eq: "localPointOnItem (px (worldPointOnItem x y it)) (py (worldPointOnItem x y it)) it
      = \<lparr>px = x, py = y\<rparr>"
    unfolding l by (simp add: rotate_back_x [OF unit] rotate_back_y [OF unit])
  show ?thesis unfolding eq by simp
qed

section \<open>Rounding to binary64\<close>

lemma roundToEven_err: "\<bar>of_int (roundToEven x) - x\<bar> \<le> 1 / 2"
proof -
  have "of_int \<lfloor>x\<rfloor> \<le> x" and "x < of_int \<lfloor>x\<rfloor> + 1" by linarith+
  then show ?thesis by (auto simp: roundToEven_def Let_def)
qed

lemma quantum_pos: "0 < quantum x"
  by (simp add: quantum_def)

lemma quantum_le:
  assumes "x \<noteq> 0" and "\<bar>x\<bar> \<le> 2 powr of_int k" and "- 1022 \<le> k"
  shows "quantum x \<le> 2 powr of_int (k - 52)"
proof -
  have "0 < \<bar>x\<bar>" using assms(1) by simp
  then have "log 2 \<bar>x\<bar> \<le> log 2 (2 powr of_int k)"
    using assms(2) by (simp del: log_powr_cancel)
  then have "log 2 \<bar>x\<bar> \<le> of_int k" by simp
  then have "\<lfloor>log 2 \<bar>x\<bar>\<rfloor> \<le> k" by (simp add: floor_le_iff)
  then have "max \<lfloor>log 2 \<bar>x\<bar>\<rfloor> (- 1022) - 52 \<le> k - 52" using assms(3) by simp
  then have "(of_int (max \<lfloor>log 2 \<bar>x\<bar>\<rfloor> (- 1022) - 52) :: real) \<le> of_int (k - 52)"
    by (simp only: of_int_le_iff)
  then show ?thesis unfolding quantum_def by (rule powr_mono) simp
qed

lemma toDouble_err:
  assumes "\<bar>x\<bar> \<le> 2 powr of_int k" and "- 1022 \<le> k" and "k \<le> 1000"
  shows "\<exists>z. toDouble x = Some z \<and> \<bar>z - x\<bar> \<le> 2 powr of_int (k - 53)"
proof (cases "x = 0")
  case True
  then show ?thesis by (simp add: toDouble_def)
next
  case False
  define q where "q = quantum x"
  define y where "y = of_int (roundToEven (x / q)) * q"
  have q0: "0 < q" by (simp add: q_def quantum_pos)
  have qle: "q \<le> 2 powr of_int (k - 52)"
    unfolding q_def using False assms(1) assms(2) by (rule quantum_le)
  have "y - x = (of_int (roundToEven (x / q)) - x / q) * q"
    using q0 by (simp add: y_def algebra_simps)
  then have "\<bar>y - x\<bar> = \<bar>of_int (roundToEven (x / q)) - x / q\<bar> * q"
    using q0 by (simp add: abs_mult)
  also have "\<dots> \<le> (1 / 2) * q"
    using roundToEven_err [of "x / q"] q0 by (intro mult_right_mono) simp_all
  also have "\<dots> \<le> (1 / 2) * 2 powr of_int (k - 52)" using qle by simp
  also have "\<dots> = 2 powr of_int (k - 53)"
  proof -
    have "(2::real) powr of_int (k - 52) = 2 powr (of_int (k - 53) + 1)" by simp
    also have "\<dots> = 2 powr of_int (k - 53) * 2" by (simp only: powr_add) simp
    finally show ?thesis by simp
  qed
  finally have err: "\<bar>y - x\<bar> \<le> 2 powr of_int (k - 53)" .
  have "(2::real) powr of_int (k - 53) \<le> 2 powr of_int k" by simp
  with err assms(1) have "\<bar>y\<bar> \<le> 2 * 2 powr of_int k" by linarith
  also have "\<dots> = 2 powr of_int (k + 1)"
    by (simp add: powr_add)
  also have "\<dots> < 2 powr 1024"
  proof (rule powr_less_mono)
    show "(of_int (k + 1) :: real) < 1024" using assms(3) by simp
  qed simp
  finally have fin: "\<bar>y\<bar> < 2 powr 1024" .
  have "toDouble x = Some y"
    using False fin by (simp add: toDouble_def Let_def y_def q_def)
  with err show ?thesis by simp
qed


lemma op_ok:
  assumes "\<bar>v\<bar> \<le> 16777216"
  shows "\<exists>z. toDouble v = Some z \<and> \<bar>z - v\<bar> \<le> 1 / 536870912"
proof -
  have "\<bar>v\<bar> \<le> 2 powr of_int 24" using assms by simp
  from toDouble_err [OF this] obtain z where "toDouble v = Some z"
    and "\<bar>z - v\<bar> \<le> 2 powr of_int (24 - 53)"
    by auto
  moreover have "(2::real) powr of_int (24 - 53) = 1 / 536870912"
    by (simp add: powr_minus_divide)
  ultimately show ?thesis by simp
qed

lemma abs_mult_le:
  fixes a b :: real
  assumes "\<bar>a\<bar> \<le> A" and "\<bar>b\<bar> \<le> B"
  shows "\<bar>a * b\<bar> \<le> A * B"
proof -
  have "0 \<le> A" using assms(1) by linarith
  have "\<bar>a * b\<bar> = \<bar>a\<bar> * \<bar>b\<bar>" by (rule abs_mult)
  also have "\<dots> \<le> A * B" using assms \<open>0 \<le> A\<close> by (intro mult_mono) simp_all
  finally show ?thesis .
qed

lemma near_unit:
  fixes c s :: real
  assumes "\<bar>c * c + s * s - 1\<bar> \<le> 1 / 2 ^ 50"
  shows "\<bar>c\<bar> \<le> 9 / 8" and "\<bar>s\<bar> \<le> 9 / 8"
proof -
  define u where "u = c * c"
  define v where "v = s * s"
  have u0: "0 \<le> u" and v0: "0 \<le> v" by (simp_all add: u_def v_def)
  have small: "(1::real) / 2 ^ 50 \<le> 17 / 64" by simp
  from assms have "\<bar>u + v - 1\<bar> \<le> 1 / 2 ^ 50" by (simp only: u_def v_def)
  with small have "u + v \<le> 81 / 64" by linarith
  with u0 v0 have "u \<le> 81 / 64" and "v \<le> 81 / 64" by linarith+
  then have "c\<^sup>2 \<le> (9 / 8)\<^sup>2" and "s\<^sup>2 \<le> (9 / 8)\<^sup>2"
    by (simp_all add: power2_eq_square u_def v_def)
  then show "\<bar>c\<bar> \<le> 9 / 8" and "\<bar>s\<bar> \<le> 9 / 8"
    using abs_le_square_iff [of c "9 / 8"] abs_le_square_iff [of s "9 / 8"] by simp_all
qed

lemma toDouble_zero [simp]: "toDouble 0 = Some 0"
  by (simp add: toDouble_def)

lemma toDouble_eval:
  assumes "2 powr of_int k \<le> \<bar>x\<bar>" and "\<bar>x\<bar> < 2 powr of_int (k + 1)"
    and "- 1022 \<le> k" and "k \<le> 999"
  shows "toDouble x
       = Some (of_int (roundToEven (x / 2 powr of_int (k - 52))) * 2 powr of_int (k - 52))"
proof -
  have pos: "0 < \<bar>x\<bar>"
  proof -
    have "(0::real) < 2 powr of_int k" by simp
    with assms(1) show ?thesis by linarith
  qed
  then have x0: "x \<noteq> 0" by auto
  have "log 2 (2 powr of_int k) \<le> log 2 \<bar>x\<bar>"
    using assms(1) pos by (simp del: log_powr_cancel)
  then have lo: "of_int k \<le> log 2 \<bar>x\<bar>" by simp
  have "log 2 \<bar>x\<bar> < log 2 (2 powr of_int (k + 1))"
    using assms(2) pos by (simp del: log_powr_cancel)
  then have hi: "log 2 \<bar>x\<bar> < of_int k + 1" by simp
  from lo hi have fl: "\<lfloor>log 2 \<bar>x\<bar>\<rfloor> = k" by (rule floor_unique)
  have q: "quantum x = 2 powr of_int (k - 52)"
    using assms(3) by (simp add: quantum_def fl max_def)
  have "\<bar>x\<bar> \<le> 2 powr of_int (k + 1)" using assms(2) by simp
  moreover have "- 1022 \<le> k + 1" and "k + 1 \<le> 1000" using assms(3,4) by simp_all
  ultimately obtain z where z: "toDouble x = Some z" using toDouble_err [of x "k + 1"] by blast
  then show ?thesis
    using x0 by (simp add: toDouble_def Let_def q split: if_splits)
qed

lemma toDouble_one [simp]: "toDouble 1 = Some 1"
  using toDouble_eval [of 0 1] by (simp add: powr_minus_divide roundToEven_def)

lemma toDouble_far: "toDouble 1099511627776 = Some 1099511627776"
  using toDouble_eval [of 40 1099511627776] by (simp add: powr_minus_divide roundToEven_def)

lemma toDouble_near: "toDouble (1 / 16384) = Some (1 / 16384)"
  using toDouble_eval [of "- 14" "1 / 16384"] by (simp add: powr_minus_divide roundToEven_def)

lemma toDouble_far_near: "toDouble (1099511627776 + 1 / 16384) = Some 1099511627776"
  using toDouble_eval [of 40 "1099511627776 + 1 / 16384"]
  by (simp add: powr_minus_divide roundToEven_def)

lemmas toDouble_far_near' = toDouble_far_near [simplified]

text \<open>
  C1. The claim is that the round trip returns every finite point within \<open>1e-6\<close>, on
  every item. In binary64 arithmetic that fails far from the origin: for the item at
  \<open>x = 2 ^ 40\<close> (about \<open>1.1e12\<close>), not rotated, and the local point
  \<open>(2 ^ -14, 0)\<close>, the sum \<open>2 ^ 40 + 2 ^ -14\<close> rounds to \<open>2 ^ 40\<close>, so
  \<^verbatim>\<open>worldPointOnItem\<close> returns \<open>(2 ^ 40, 0)\<close> and \<^verbatim>\<open>localPointOnItem\<close> returns
  \<open>(0, 0)\<close> for it, off by \<open>2 ^ -14\<close>, about \<open>6.1e-5\<close>. All angles are zero
  here, where ECMAScript fixes \<^verbatim>\<open>Math.cos\<close> to 1 and \<^verbatim>\<open>Math.sin\<close> to 0.
\<close>

theorem roundTrip64_loses_point:
  "item_area (itemFields farItem) \<noteq> None
   \<and> roundTrip64 roundedPlatform (1 / 16384) 0 farItem = (Some 0, Some 0)
   \<and> \<not> \<bar>(0::real) - 1 / 16384\<bar> \<le> 1 / 10 ^ 6"
  by (simp add: roundTrip64_def worldPointOnItem64_def localPointOnItem64_def farItem_def
      leafItem_def transformOf_def zeroTransform_def Let_def cos64_def sin64_def
      roundedPlatform_def correctlyRounded_def toDouble_far toDouble_near toDouble_far_near')

text \<open>
  C1, amended. For every item that has an area and every point, when the coordinates
  and angles involved (\<open>x\<close>, \<open>y\<close> and \<open>r\<close> of the area and of the transform, and
  the point) are at most \<open>2 ^ 20 = 1048576\<close> in magnitude, and \<^verbatim>\<open>Math.cos\<close> and
  \<^verbatim>\<open>Math.sin\<close> return for every angle values \<open>c\<close> and \<open>s\<close> with
  \<open>\<bar>c\<^sup>2 + s\<^sup>2 - 1\<bar> \<le> 2 ^ -50\<close>: the round trip in binary64 arithmetic returns finite
  coordinates within \<open>1e-6\<close> of the point.
\<close>

theorem roundTrip64_within_tolerance:
  assumes area: "item_area (itemFields it) = Some a"
    and plat: "\<forall>t. \<bar>mathCos pl t * mathCos pl t + mathSin pl t * mathSin pl t - 1\<bar> \<le> 1 / 2 ^ 50"
    and b_x: "\<bar>x\<bar> \<le> 1048576" and b_y: "\<bar>y\<bar> \<le> 1048576"
    and bax: "\<bar>area_x a\<bar> \<le> 1048576" and bay: "\<bar>area_y a\<bar> \<le> 1048576"
    and bar: "\<bar>area_r a\<bar> \<le> 1048576"
    and btx: "\<bar>tf_x (transformOf it)\<bar> \<le> 1048576"
    and bty: "\<bar>tf_y (transformOf it)\<bar> \<le> 1048576"
    and btr: "\<bar>tf_r (transformOf it)\<bar> \<le> 1048576"
  shows "\<exists>lx ly. roundTrip64 pl x y it = (Some lx, Some ly)
           \<and> \<bar>lx - x\<bar> \<le> 1 / 10 ^ 6 \<and> \<bar>ly - y\<bar> \<le> 1 / 10 ^ 6"
proof -
  define tx where "tx = tf_x (transformOf it)"
  define ty where "ty = tf_y (transformOf it)"
  define tr where "tr = tf_r (transformOf it)"
  define ax where "ax = area_x a"
  define ay where "ay = area_y a"
  define ar where "ar = area_r a"
  have b_tx: "\<bar>tx\<bar> \<le> 1048576" and b_ty: "\<bar>ty\<bar> \<le> 1048576" and b_tr: "\<bar>tr\<bar> \<le> 1048576"
    and b_ax: "\<bar>ax\<bar> \<le> 1048576" and b_ay: "\<bar>ay\<bar> \<le> 1048576" and b_ar: "\<bar>ar\<bar> \<le> 1048576"
    using bax bay bar btx bty btr by (simp_all add: tx_def ty_def tr_def ax_def ay_def ar_def)
  have b_mathPI: "\<bar>mathPI\<bar> \<le> 4" by (simp add: mathPI_def)
  have p_z1: "\<bar>tr * mathPI\<bar> \<le> 1048576 * 4" by (rule abs_mult_le [OF b_tr b_mathPI])
  then have "\<bar>tr * mathPI\<bar> \<le> 16777216" by simp
  from op_ok [OF this] obtain z1 where r_z1: "toDouble (tr * mathPI) = Some z1"
    and e_z1: "\<bar>z1 - tr * mathPI\<bar> \<le> 1 / 536870912" by blast
  have b_z1: "\<bar>z1\<bar> \<le> 4194305" using p_z1 e_z1 by linarith
  have "\<bar>z1 / 180\<bar> \<le> 16777216" using b_z1 by simp
  from op_ok [OF this] obtain ta where r_ta: "toDouble (z1 / 180) = Some ta" by blast
  have "\<bar>tr + ar\<bar> \<le> 16777216" using b_tr b_ar by linarith
  from op_ok [OF this] obtain z2 where r_z2: "toDouble (tr + ar) = Some z2"
    and e_z2: "\<bar>z2 - (tr + ar)\<bar> \<le> 1 / 536870912" by blast
  have b_z2: "\<bar>z2\<bar> \<le> 2097153" using b_tr b_ar e_z2 by linarith
  have p_z3: "\<bar>z2 * mathPI\<bar> \<le> 2097153 * 4" by (rule abs_mult_le [OF b_z2 b_mathPI])
  then have "\<bar>z2 * mathPI\<bar> \<le> 16777216" by simp
  from op_ok [OF this] obtain z3 where r_z3: "toDouble (z2 * mathPI) = Some z3"
    and e_z3: "\<bar>z3 - z2 * mathPI\<bar> \<le> 1 / 536870912" by blast
  have b_z3: "\<bar>z3\<bar> \<le> 8388613" using p_z3 e_z3 by linarith
  have "\<bar>z3 / 180\<bar> \<le> 16777216" using b_z3 by simp
  from op_ok [OF this] obtain an where r_an: "toDouble (z3 / 180) = Some an" by blast
  define c1 where "c1 = mathCos pl ta"
  define s1 where "s1 = mathSin pl ta"
  define c where "c = mathCos pl an"
  define s where "s = mathSin pl an"
  have unit: "\<bar>c * c + s * s - 1\<bar> \<le> 1 / 2 ^ 50"
    unfolding c_def s_def using plat by blast
  have unit1: "\<bar>c1 * c1 + s1 * s1 - 1\<bar> \<le> 1 / 2 ^ 50"
    unfolding c1_def s1_def using plat by blast
  note b_c = near_unit(1) [OF unit] and b_s = near_unit(2) [OF unit]
    and b_c1 = near_unit(1) [OF unit1] and b_s1 = near_unit(2) [OF unit1]
  have p_p1: "\<bar>ax * c1\<bar> \<le> 1048576 * (9 / 8)" by (rule abs_mult_le [OF b_ax b_c1])
  then have "\<bar>ax * c1\<bar> \<le> 16777216" by simp
  from op_ok [OF this] obtain p1 where r_p1: "toDouble (ax * c1) = Some p1"
    and e_p1: "\<bar>p1 - ax * c1\<bar> \<le> 1 / 536870912" by blast
  have b_p1: "\<bar>p1\<bar> \<le> 1179649" using p_p1 e_p1 by linarith
  have "\<bar>tx + p1\<bar> \<le> 16777216" using b_tx b_p1 by linarith
  from op_ok [OF this] obtain a1 where r_a1: "toDouble (tx + p1) = Some a1"
    and e_a1: "\<bar>a1 - (tx + p1)\<bar> \<le> 1 / 536870912" by blast
  have b_a1: "\<bar>a1\<bar> \<le> 2228226" using b_tx b_p1 e_a1 by linarith
  have p_p2: "\<bar>ay * s1\<bar> \<le> 1048576 * (9 / 8)" by (rule abs_mult_le [OF b_ay b_s1])
  then have "\<bar>ay * s1\<bar> \<le> 16777216" by simp
  from op_ok [OF this] obtain p2 where r_p2: "toDouble (ay * s1) = Some p2"
    and e_p2: "\<bar>p2 - ay * s1\<bar> \<le> 1 / 536870912" by blast
  have b_p2: "\<bar>p2\<bar> \<le> 1179649" using p_p2 e_p2 by linarith
  have "\<bar>a1 - p2\<bar> \<le> 16777216" using b_a1 b_p2 by linarith
  from op_ok [OF this] obtain a2 where r_a2: "toDouble (a1 - p2) = Some a2"
    and e_a2: "\<bar>a2 - (a1 - p2)\<bar> \<le> 1 / 536870912" by blast
  have b_a2: "\<bar>a2\<bar> \<le> 3407876" using b_a1 b_p2 e_a2 by linarith
  have p_p3: "\<bar>x * c\<bar> \<le> 1048576 * (9 / 8)" by (rule abs_mult_le [OF b_x b_c])
  then have "\<bar>x * c\<bar> \<le> 16777216" by simp
  from op_ok [OF this] obtain p3 where r_p3: "toDouble (x * c) = Some p3"
    and e_p3: "\<bar>p3 - x * c\<bar> \<le> 1 / 536870912" by blast
  have b_p3: "\<bar>p3\<bar> \<le> 1179649" using p_p3 e_p3 by linarith
  have "\<bar>a2 + p3\<bar> \<le> 16777216" using b_a2 b_p3 by linarith
  from op_ok [OF this] obtain a3 where r_a3: "toDouble (a2 + p3) = Some a3"
    and e_a3: "\<bar>a3 - (a2 + p3)\<bar> \<le> 1 / 536870912" by blast
  have b_a3: "\<bar>a3\<bar> \<le> 4587526" using b_a2 b_p3 e_a3 by linarith
  have p_p4: "\<bar>y * s\<bar> \<le> 1048576 * (9 / 8)" by (rule abs_mult_le [OF b_y b_s])
  then have "\<bar>y * s\<bar> \<le> 16777216" by simp
  from op_ok [OF this] obtain p4 where r_p4: "toDouble (y * s) = Some p4"
    and e_p4: "\<bar>p4 - y * s\<bar> \<le> 1 / 536870912" by blast
  have b_p4: "\<bar>p4\<bar> \<le> 1179649" using p_p4 e_p4 by linarith
  have "\<bar>a3 - p4\<bar> \<le> 16777216" using b_a3 b_p4 by linarith
  from op_ok [OF this] obtain wx where r_wx: "toDouble (a3 - p4) = Some wx"
    and e_wx: "\<bar>wx - (a3 - p4)\<bar> \<le> 1 / 536870912" by blast
  have b_wx: "\<bar>wx\<bar> \<le> 5767176" using b_a3 b_p4 e_wx by linarith
  have p_q1: "\<bar>ax * s1\<bar> \<le> 1048576 * (9 / 8)" by (rule abs_mult_le [OF b_ax b_s1])
  then have "\<bar>ax * s1\<bar> \<le> 16777216" by simp
  from op_ok [OF this] obtain q1 where r_q1: "toDouble (ax * s1) = Some q1"
    and e_q1: "\<bar>q1 - ax * s1\<bar> \<le> 1 / 536870912" by blast
  have b_q1: "\<bar>q1\<bar> \<le> 1179649" using p_q1 e_q1 by linarith
  have "\<bar>ty + q1\<bar> \<le> 16777216" using b_ty b_q1 by linarith
  from op_ok [OF this] obtain b1 where r_b1: "toDouble (ty + q1) = Some b1"
    and e_b1: "\<bar>b1 - (ty + q1)\<bar> \<le> 1 / 536870912" by blast
  have b_b1: "\<bar>b1\<bar> \<le> 2228226" using b_ty b_q1 e_b1 by linarith
  have p_q2: "\<bar>ay * c1\<bar> \<le> 1048576 * (9 / 8)" by (rule abs_mult_le [OF b_ay b_c1])
  then have "\<bar>ay * c1\<bar> \<le> 16777216" by simp
  from op_ok [OF this] obtain q2 where r_q2: "toDouble (ay * c1) = Some q2"
    and e_q2: "\<bar>q2 - ay * c1\<bar> \<le> 1 / 536870912" by blast
  have b_q2: "\<bar>q2\<bar> \<le> 1179649" using p_q2 e_q2 by linarith
  have "\<bar>b1 + q2\<bar> \<le> 16777216" using b_b1 b_q2 by linarith
  from op_ok [OF this] obtain b2 where r_b2: "toDouble (b1 + q2) = Some b2"
    and e_b2: "\<bar>b2 - (b1 + q2)\<bar> \<le> 1 / 536870912" by blast
  have b_b2: "\<bar>b2\<bar> \<le> 3407876" using b_b1 b_q2 e_b2 by linarith
  have p_q3: "\<bar>x * s\<bar> \<le> 1048576 * (9 / 8)" by (rule abs_mult_le [OF b_x b_s])
  then have "\<bar>x * s\<bar> \<le> 16777216" by simp
  from op_ok [OF this] obtain q3 where r_q3: "toDouble (x * s) = Some q3"
    and e_q3: "\<bar>q3 - x * s\<bar> \<le> 1 / 536870912" by blast
  have b_q3: "\<bar>q3\<bar> \<le> 1179649" using p_q3 e_q3 by linarith
  have "\<bar>b2 + q3\<bar> \<le> 16777216" using b_b2 b_q3 by linarith
  from op_ok [OF this] obtain b3 where r_b3: "toDouble (b2 + q3) = Some b3"
    and e_b3: "\<bar>b3 - (b2 + q3)\<bar> \<le> 1 / 536870912" by blast
  have b_b3: "\<bar>b3\<bar> \<le> 4587526" using b_b2 b_q3 e_b3 by linarith
  have p_q4: "\<bar>y * c\<bar> \<le> 1048576 * (9 / 8)" by (rule abs_mult_le [OF b_y b_c])
  then have "\<bar>y * c\<bar> \<le> 16777216" by simp
  from op_ok [OF this] obtain q4 where r_q4: "toDouble (y * c) = Some q4"
    and e_q4: "\<bar>q4 - y * c\<bar> \<le> 1 / 536870912" by blast
  have b_q4: "\<bar>q4\<bar> \<le> 1179649" using p_q4 e_q4 by linarith
  have "\<bar>b3 + q4\<bar> \<le> 16777216" using b_b3 b_q4 by linarith
  from op_ok [OF this] obtain wy where r_wy: "toDouble (b3 + q4) = Some wy"
    and e_wy: "\<bar>wy - (b3 + q4)\<bar> \<le> 1 / 536870912" by blast
  have b_wy: "\<bar>wy\<bar> \<le> 5767176" using b_b3 b_q4 e_wy by linarith
  have "\<bar>wy - b2\<bar> \<le> 16777216" using b_wy b_b2 by linarith
  from op_ok [OF this] obtain d1 where r_d1: "toDouble (wy - b2) = Some d1"
    and e_d1: "\<bar>d1 - (wy - b2)\<bar> \<le> 1 / 536870912" by blast
  have b_d1: "\<bar>d1\<bar> \<le> 9175053" using b_wy b_b2 e_d1 by linarith
  have "\<bar>wx - a2\<bar> \<le> 16777216" using b_wx b_a2 by linarith
  from op_ok [OF this] obtain d2 where r_d2: "toDouble (wx - a2) = Some d2"
    and e_d2: "\<bar>d2 - (wx - a2)\<bar> \<le> 1 / 536870912" by blast
  have b_d2: "\<bar>d2\<bar> \<le> 9175053" using b_wx b_a2 e_d2 by linarith
  define dl1 where "dl1 = d1 - (x * s + y * c)"
  define dl2 where "dl2 = d2 - (x * c - y * s)"
  have b_dl1: "\<bar>dl1\<bar> \<le> 5 / 536870912"
    unfolding dl1_def using e_q3 e_b3 e_q4 e_wy e_d1 by linarith
  have b_dl2: "\<bar>dl2\<bar> \<le> 5 / 536870912"
    unfolding dl2_def using e_p3 e_a3 e_p4 e_wx e_d2 by linarith
  have t_d1: "\<bar>d1\<bar> \<le> 2359297"
    using b_dl1 p_q3 p_q4 unfolding dl1_def by linarith
  have t_d2: "\<bar>d2\<bar> \<le> 2359297"
    using b_dl2 p_p3 p_p4 unfolding dl2_def by linarith
  note b_d1 = t_d1 and b_d2 = t_d2
  have p_m1: "\<bar>d1 * s\<bar> \<le> 2359297 * (9 / 8)" by (rule abs_mult_le [OF b_d1 b_s])
  then have "\<bar>d1 * s\<bar> \<le> 16777216" by simp
  from op_ok [OF this] obtain m1 where r_m1: "toDouble (d1 * s) = Some m1"
    and e_m1: "\<bar>m1 - d1 * s\<bar> \<le> 1 / 536870912" by blast
  have b_m1: "\<bar>m1\<bar> \<le> 2654211" using p_m1 e_m1 by linarith
  have p_m2: "\<bar>d2 * c\<bar> \<le> 2359297 * (9 / 8)" by (rule abs_mult_le [OF b_d2 b_c])
  then have "\<bar>d2 * c\<bar> \<le> 16777216" by simp
  from op_ok [OF this] obtain m2 where r_m2: "toDouble (d2 * c) = Some m2"
    and e_m2: "\<bar>m2 - d2 * c\<bar> \<le> 1 / 536870912" by blast
  have b_m2: "\<bar>m2\<bar> \<le> 2654211" using p_m2 e_m2 by linarith
  have "\<bar>m1 + m2\<bar> \<le> 16777216" using b_m1 b_m2 by linarith
  from op_ok [OF this] obtain lx where r_lx: "toDouble (m1 + m2) = Some lx"
    and e_lx: "\<bar>lx - (m1 + m2)\<bar> \<le> 1 / 536870912" by blast
  have b_lx: "\<bar>lx\<bar> \<le> 5308423" using b_m1 b_m2 e_lx by linarith
  have p_n1: "\<bar>d1 * c\<bar> \<le> 2359297 * (9 / 8)" by (rule abs_mult_le [OF b_d1 b_c])
  then have "\<bar>d1 * c\<bar> \<le> 16777216" by simp
  from op_ok [OF this] obtain n1 where r_n1: "toDouble (d1 * c) = Some n1"
    and e_n1: "\<bar>n1 - d1 * c\<bar> \<le> 1 / 536870912" by blast
  have b_n1: "\<bar>n1\<bar> \<le> 2654211" using p_n1 e_n1 by linarith
  have p_n2: "\<bar>d2 * s\<bar> \<le> 2359297 * (9 / 8)" by (rule abs_mult_le [OF b_d2 b_s])
  then have "\<bar>d2 * s\<bar> \<le> 16777216" by simp
  from op_ok [OF this] obtain n2 where r_n2: "toDouble (d2 * s) = Some n2"
    and e_n2: "\<bar>n2 - d2 * s\<bar> \<le> 1 / 536870912" by blast
  have b_n2: "\<bar>n2\<bar> \<le> 2654211" using p_n2 e_n2 by linarith
  have "\<bar>n1 - n2\<bar> \<le> 16777216" using b_n1 b_n2 by linarith
  from op_ok [OF this] obtain ly where r_ly: "toDouble (n1 - n2) = Some ly"
    and e_ly: "\<bar>ly - (n1 - n2)\<bar> \<le> 1 / 536870912" by blast
  have b_ly: "\<bar>ly\<bar> \<le> 5308423" using b_n1 b_n2 e_ly by linarith
  have world: "worldPointOnItem64 pl x y it = (Some wx, Some wy)"
    unfolding worldPointOnItem64_def area option.case Let_def tx_def [symmetric] ty_def [symmetric]
      tr_def [symmetric] ax_def [symmetric] ay_def [symmetric] ar_def [symmetric]
    by (simp only: mul64.simps add64.simps sub64.simps div64.simps cos64_def sin64_def
        option.map r_z1 r_ta r_z2 r_z3 r_an c1_def [symmetric] s1_def [symmetric]
        c_def [symmetric] s_def [symmetric]
        r_p1 r_a1 r_p2 r_a2 r_p3 r_a3 r_p4 r_wx r_q1 r_b1 r_q2 r_b2 r_q3 r_b3 r_q4 r_wy)
  have local: "localPointOnItem64 pl wx wy it = (Some lx, Some ly)"
    unfolding localPointOnItem64_def area option.case Let_def tx_def [symmetric] ty_def [symmetric]
      tr_def [symmetric] ax_def [symmetric] ay_def [symmetric] ar_def [symmetric]
    by (simp only: mul64.simps add64.simps sub64.simps div64.simps cos64_def sin64_def
        option.map r_z1 r_ta r_z2 r_z3 r_an c1_def [symmetric] s1_def [symmetric]
        c_def [symmetric] s_def [symmetric]
        r_p1 r_a1 r_p2 r_a2 r_q1 r_b1 r_q2 r_b2 r_d1 r_d2 r_m1 r_m2 r_lx r_n1 r_n2 r_ly)
  have trip: "roundTrip64 pl x y it = (Some lx, Some ly)"
    by (simp add: roundTrip64_def world local)
  define u where "u = c * c + s * s - 1"
  have b_u: "\<bar>u\<bar> \<le> 1 / 2 ^ 50" using unit by (simp add: u_def)
  have xu: "\<bar>x * u\<bar> \<le> 1048576 * (1 / 2 ^ 50)" by (rule abs_mult_le [OF b_x b_u])
  have yu: "\<bar>y * u\<bar> \<le> 1048576 * (1 / 2 ^ 50)" by (rule abs_mult_le [OF b_y b_u])
  have k1s: "\<bar>dl1 * s\<bar> \<le> (5 / 536870912) * (9 / 8)" by (rule abs_mult_le [OF b_dl1 b_s])
  have k1c: "\<bar>dl1 * c\<bar> \<le> (5 / 536870912) * (9 / 8)" by (rule abs_mult_le [OF b_dl1 b_c])
  have k2s: "\<bar>dl2 * s\<bar> \<le> (5 / 536870912) * (9 / 8)" by (rule abs_mult_le [OF b_dl2 b_s])
  have k2c: "\<bar>dl2 * c\<bar> \<le> (5 / 536870912) * (9 / 8)" by (rule abs_mult_le [OF b_dl2 b_c])
  have idx: "d1 * s + d2 * c - x = x * u + dl1 * s + dl2 * c"
    by (simp add: dl1_def dl2_def u_def algebra_simps)
  have idy: "d1 * c - d2 * s - y = y * u + dl1 * c - dl2 * s"
    by (simp add: dl1_def dl2_def u_def algebra_simps)
  have xu': "\<bar>x * u\<bar> \<le> 1 / 1073741824" using xu by simp
  have yu': "\<bar>y * u\<bar> \<le> 1 / 1073741824" using yu by simp
  have k1s': "\<bar>dl1 * s\<bar> \<le> 45 / 4294967296" using k1s by simp
  have k1c': "\<bar>dl1 * c\<bar> \<le> 45 / 4294967296" using k1c by simp
  have k2s': "\<bar>dl2 * s\<bar> \<le> 45 / 4294967296" using k2s by simp
  have k2c': "\<bar>dl2 * c\<bar> \<le> 45 / 4294967296" using k2c by simp
  have "\<bar>lx - x\<bar> \<le> 1 / 1000000"
    using e_m1 e_m2 e_lx idx xu' k1s' k2c' by linarith
  then have "\<bar>lx - x\<bar> \<le> 1 / 10 ^ 6" by simp
  moreover have "\<bar>ly - y\<bar> \<le> 1 / 1000000"
    using e_n1 e_n2 e_ly idy yu' k1c' k2s' by linarith
  then have "\<bar>ly - y\<bar> \<le> 1 / 10 ^ 6" by simp
  ultimately show ?thesis using trip by blast
qed

lemma roundedPlatform_unit:
  "\<bar>mathCos roundedPlatform t * mathCos roundedPlatform t
      + mathSin roundedPlatform t * mathSin roundedPlatform t - 1\<bar> \<le> 1 / 2 ^ 50"
proof -
  have "\<bar>cos t\<bar> \<le> 2 powr of_int 0" and "\<bar>sin t\<bar> \<le> 2 powr of_int 0" by simp_all
  from toDouble_err [OF this(1)] toDouble_err [OF this(2)]
  obtain c s where c: "toDouble (cos t) = Some c" and ec: "\<bar>c - cos t\<bar> \<le> 2 powr of_int (0 - 53)"
    and s: "toDouble (sin t) = Some s" and es: "\<bar>s - sin t\<bar> \<le> 2 powr of_int (0 - 53)"
    by auto
  define h :: real where "h = 1 / 9007199254740992"
  define e1 where "e1 = c - cos t"
  define e2 where "e2 = s - sin t"
  have b1: "\<bar>e1\<bar> \<le> h" and b2: "\<bar>e2\<bar> \<le> h"
    using ec es by (simp_all add: e1_def e2_def h_def powr_minus_divide)
  have bc: "\<bar>cos t\<bar> \<le> 1" and bs: "\<bar>sin t\<bar> \<le> 1" by simp_all
  have unit: "cos t * cos t + sin t * sin t = 1"
    using sin_cos_squared_add2 [of t] by (simp add: power2_eq_square)
  have "c * c + s * s - 1 = (cos t * cos t + sin t * sin t - 1)
      + 2 * (cos t * e1) + e1 * e1 + 2 * (sin t * e2) + e2 * e2"
    by (simp add: e1_def e2_def algebra_simps)
  then have eq: "c * c + s * s - 1 = 2 * (cos t * e1) + e1 * e1 + 2 * (sin t * e2) + e2 * e2"
    by (simp add: unit)
  have k1: "\<bar>cos t * e1\<bar> \<le> 1 * h" by (rule abs_mult_le [OF bc b1])
  have k2: "\<bar>sin t * e2\<bar> \<le> 1 * h" by (rule abs_mult_le [OF bs b2])
  have k3: "\<bar>e1 * e1\<bar> \<le> h * h" by (rule abs_mult_le [OF b1 b1])
  have k4: "\<bar>e2 * e2\<bar> \<le> h * h" by (rule abs_mult_le [OF b2 b2])
  have hh: "h * h \<le> h" by (simp add: h_def)
  have "\<bar>c * c + s * s - 1\<bar> \<le> 6 * h"
    unfolding eq using k1 k2 k3 k4 hh by linarith
  also have "\<dots> \<le> 1 / 2 ^ 50" by (simp add: h_def)
  finally show ?thesis
    by (simp add: roundedPlatform_def correctlyRounded_def c s)
qed

theorem roundTrip64_within_tolerance_witness:
  "item_area (itemFields (withTransform \<lparr>tf_x = 5, tf_y = 7, tf_r = 90\<rparr>
       (leafItem ''i'' \<lparr>area_x = 10, area_y = 10, area_w = 4, area_h = 2, area_r = 30\<rparr>)))
     = Some \<lparr>area_x = 10, area_y = 10, area_w = 4, area_h = 2, area_r = 30\<rparr>
   \<and> transformOf (withTransform \<lparr>tf_x = 5, tf_y = 7, tf_r = 90\<rparr>
       (leafItem ''i'' \<lparr>area_x = 10, area_y = 10, area_w = 4, area_h = 2, area_r = 30\<rparr>))
     = \<lparr>tf_x = 5, tf_y = 7, tf_r = 90\<rparr>
   \<and> (\<exists>lx ly. roundTrip64 roundedPlatform 3 4
          (withTransform \<lparr>tf_x = 5, tf_y = 7, tf_r = 90\<rparr>
            (leafItem ''i'' \<lparr>area_x = 10, area_y = 10, area_w = 4, area_h = 2, area_r = 30\<rparr>))
          = (Some lx, Some ly)
        \<and> \<bar>lx - 3\<bar> \<le> 1 / 10 ^ 6 \<and> \<bar>ly - 4\<bar> \<le> 1 / 10 ^ 6)"
proof -
  let ?it = "withTransform \<lparr>tf_x = 5, tf_y = 7, tf_r = 90\<rparr>
       (leafItem ''i'' \<lparr>area_x = 10, area_y = 10, area_w = 4, area_h = 2, area_r = 30\<rparr>)"
  have a: "item_area (itemFields ?it)
      = Some \<lparr>area_x = 10, area_y = 10, area_w = 4, area_h = 2, area_r = 30\<rparr>"
    by (simp add: withTransform_def leafItem_def)
  have t: "transformOf ?it = \<lparr>tf_x = 5, tf_y = 7, tf_r = 90\<rparr>"
    by (simp add: transformOf_def withTransform_def leafItem_def)
  have p: "\<forall>t. \<bar>mathCos roundedPlatform t * mathCos roundedPlatform t
      + mathSin roundedPlatform t * mathSin roundedPlatform t - 1\<bar> \<le> 1 / 2 ^ 50"
    using roundedPlatform_unit by blast
  have "\<exists>lx ly. roundTrip64 roundedPlatform 3 4 ?it = (Some lx, Some ly)
        \<and> \<bar>lx - 3\<bar> \<le> 1 / 10 ^ 6 \<and> \<bar>ly - 4\<bar> \<le> 1 / 10 ^ 6"
    using roundTrip64_within_tolerance [OF a p, of 3 4] unfolding t by simp
  with a t show ?thesis by blast
qed

section \<open>Bounding box\<close>

text \<open>
  C8. The claim is that the box of \<open>getBoundingBoxOfItems\<close> contains the four world
  corners of every item. The code lowers \<open>x\<close> (or \<open>y\<close>) of the box without widening
  it, so it loses corners seen before. For one root item of area
  \<open>(0, 0, 10, 10)\<close> rotated by 90 degrees the corners are \<open>(0,0)\<close>, \<open>(0,10)\<close>,
  \<open>(-10,10)\<close>, \<open>(-10,0)\<close>; the box returned is \<open>x = -10, w = 0\<close>, and the corner
  \<open>worldPointOnItem 0 0\<close> lies to the right of it.
\<close>

theorem boundingBox_loses_corner:
  "getBoundingBoxOfItems
     [withTransform zeroTransform
        (leafItem ''a'' \<lparr>area_x = 0, area_y = 0, area_w = 10, area_h = 10, area_r = 90\<rparr>)]
     = Inr (Some \<lparr>rect_x = - 10, rect_y = 0, rect_w = 0, rect_h = 10\<rparr>)
   \<and> worldPointOnItem 0 0 (withTransform zeroTransform
        (leafItem ''a'' \<lparr>area_x = 0, area_y = 0, area_w = 10, area_h = 10, area_r = 90\<rparr>))
     = \<lparr>px = 0, py = 0\<rparr>
   \<and> \<not> ((0::real) \<le> - 10 + 0)"
  by (simp add: getBoundingBoxOfItems_def cornerPoints_def worldPointOnItem_def
      withTransform_def leafItem_def transformOf_def zeroTransform_def Let_def)

section \<open>Paths into the forest\<close>

lemma item_at_update_at:
  "item_at items p = Some it \<Longrightarrow> item_at (update_at f p items) p = Some (f it)"
proof (induction p arbitrary: items)
  case Nil
  then show ?case by simp
next
  case (Cons i p)
  show ?case
  proof (cases "p = []")
    case True
    with Cons.prems show ?thesis by (auto split: if_splits)
  next
    case False
    from Cons.prems False have i: "i < length items"
      and sub: "item_at (childItems (items ! i)) p = Some it"
      by (auto split: if_splits)
    from Cons.IH [OF sub] i False show ?thesis by simp
  qed
qed

lemma connectorAt_storeConnector:
  assumes "connectorAt (scheme_items s) (sp, ci) \<noteq> None"
  shows "connectorAt (scheme_items (storeConnector (sp, ci) c s)) (sp, ci) = Some c"
proof -
  from assms obtain it where it: "item_at (scheme_items s) sp = Some it"
    and ci: "ci < length (connectors (itemFields it))"
    by (auto simp: connectorAt_def split: option.splits if_splits)
  show ?thesis
    using item_at_update_at [OF it] ci
    by (simp add: connectorAt_def storeConnector_def map_fields_def)
qed

lemma itemMap_storeConnector [simp]: "itemMap (storeConnector r c s) = itemMap s"
  by (simp add: storeConnector_def)


section \<open>Connectors\<close>

lemmas reindex_eval = reindexItems_def newContainer_def emptyContainer_def reindexItem_def
  enrichItemWithDefaults_def areaOrDefault_def metaOrNew_def extendObject_def defaultItemProps_def
  shapeDefaults_def truthy_def key_of_def zeroTransform_def buildItemConnectors_def
  connectorCount_def plainProps_def rootMeta_def Let_def

lemma reroutes_prepareConnector [simp]: "reroutes (prepareConnector e s src c) = reroutes c"
  by (simp add: prepareConnector_def enrichConnectorWithDefaultStyle_def)

lemma itemId_prepareConnector [simp]: "itemId (prepareConnector e s src c) = itemId c"
  by (simp add: prepareConnector_def enrichConnectorWithDefaultStyle_def)


text \<open>
  The same connector in a scheme given to the constructor: the reindex throws.
\<close>

lemma constructor_throws_on_inherited_key:
  "fst (newContainer exampleEnv (scheme_items (danglingContainer ''constructor''))) = Some TypeError"
  by (simp add: danglingContainer_def emptyContainer_def lineItem_def plainConnector_def
      map_fields_def connectorAt_def buildConnector_def findItemById_def getProperty_def
      inheritedKeys_def indexDestinationToSource_def storeConnector_def prepareConnector_def
      enrichConnectorWithDefaultStyle_def metaOf_def reindex_eval exampleEnv_def lineShape_def)


lemma reroutes_plainConnector [simp]: "reroutes (plainConnector d rs) = rs"
  by (simp add: plainConnector_def)


lemma bindE_Inr: "bindE r f = Inr v \<Longrightarrow> \<exists>u. r = Inr u \<and> f u = Inr v"
  by (cases r) (simp_all add: bindE_def)

text \<open>
  C6. With a non-empty \<open>reroutes\<close> list, the points of \<open>buildConnector\<close> are: the edge
  point of the source toward the first reroute of the list, the enabled reroutes in
  order, and, when the destination is found, the edge point of the destination toward
  the last reroute of the list. The first and the last reroute are taken as they stand
  in the list, enabled or not: the claim as stated (toward the first and last
  \<^emph>\<open>enabled\<close> reroute) fails when the first reroute is disabled.
\<close>

theorem connectorPoints_reroutes:
  assumes "reroutes c \<noteq> []"
    and "connectorPoints e sourceItem c destinationItem = Inr pts"
  shows "findEdgePoint e sourceItem (reroutePoint (hd (reroutes c))) = Inr (hd pts)
       \<and> (case destinationItem of
            None \<Rightarrow> tl pts = map reroutePoint (enabledReroutes c)
          | Some d \<Rightarrow>
              tl pts \<noteq> []
              \<and> butlast (tl pts) = map reroutePoint (enabledReroutes c)
              \<and> findEdgePoint e d (reroutePoint (last (reroutes c))) = Inr (last pts))"
proof -
  have first: "reroutes c ! 0 = hd (reroutes c)"
    using assms(1) by (simp add: hd_conv_nth)
  have lst: "reroutes c ! (length (reroutes c) - 1) = last (reroutes c)"
    using assms(1) by (simp add: last_conv_nth)
  from assms obtain p1 where p1: "findEdgePoint e sourceItem (reroutePoint (hd (reroutes c))) = Inr p1"
    and rest: "(case destinationItem of
                  None \<Rightarrow> Inr (p1 # map reroutePoint (enabledReroutes c))
                | Some d \<Rightarrow>
                    bindE (findEdgePoint e d (reroutePoint (last (reroutes c))))
                      (\<lambda>destinationPoint. Inr ((p1 # map reroutePoint (enabledReroutes c)) @ [destinationPoint])))
                = Inr pts"
    unfolding connectorPoints_def first lst Let_def
    by (auto dest!: bindE_Inr)
  show ?thesis
  proof (cases destinationItem)
    case None
    with rest p1 show ?thesis by auto
  next
    case (Some d)
    with rest obtain p2 where "findEdgePoint e d (reroutePoint (last (reroutes c))) = Inr p2"
      and "pts = (p1 # map reroutePoint (enabledReroutes c)) @ [p2]"
      by (auto dest!: bindE_Inr)
    with Some p1 show ?thesis by simp
  qed
qed

lemma closest_toward_left:
  "closestPointToSvgPath exampleEnv lineItem ''M 0 0 L 4 0'' \<lparr>px = - 10, py = 0\<rparr> = \<lparr>px = 1, py = 0\<rparr>"
  by (simp add: closestPointToSvgPath_def exampleEnv_def lineItem_def localPointOnItem_def
      worldPointOnItem_def transformOf_def zeroTransform_def Let_def closestLoop.simps)

lemma closest_toward_right:
  "closestPointToSvgPath exampleEnv lineItem ''M 0 0 L 4 0'' \<lparr>px = 10, py = 0\<rparr> = \<lparr>px = 3, py = 0\<rparr>"
  by (simp add: closestPointToSvgPath_def exampleEnv_def lineItem_def localPointOnItem_def
      worldPointOnItem_def transformOf_def zeroTransform_def Let_def closestLoop.simps)

lemma outlinePath_lineItem: "outlinePath exampleEnv lineItem = Some ''M 0 0 L 4 0''"
  by (simp add: outlinePath_def exampleEnv_def lineItem_def lineShape_def truthy_def key_of_def)

lemma findEdgePoint_lineItem:
  "findEdgePoint exampleEnv lineItem p = Inr (closestPointToSvgPath exampleEnv lineItem ''M 0 0 L 4 0'' p)"
  by (simp add: findEdgePoint_def outlinePath_lineItem)

lemma example_points:
  "connectorPoints exampleEnv lineItem
     (plainConnector None [\<lparr>rr_x = - 10, rr_y = 0, rr_disabled = True\<rparr>,
                           \<lparr>rr_x = 10, rr_y = 0, rr_disabled = False\<rparr>]) None
   = Inr [\<lparr>px = 1, py = 0\<rparr>, \<lparr>px = 10, py = 0\<rparr>]"
  by (simp add: connectorPoints_def enabledReroutes_def bindE_def
      findEdgePoint_lineItem reroutePoint_def closest_toward_left)

theorem first_point_not_toward_enabled:
  "connectorPoints exampleEnv lineItem
     (plainConnector None [\<lparr>rr_x = - 10, rr_y = 0, rr_disabled = True\<rparr>,
                           \<lparr>rr_x = 10, rr_y = 0, rr_disabled = False\<rparr>]) None
     = Inr [\<lparr>px = 1, py = 0\<rparr>, \<lparr>px = 10, py = 0\<rparr>]
   \<and> findEdgePoint exampleEnv lineItem
       (reroutePoint (hd (enabledReroutes
          (plainConnector None [\<lparr>rr_x = - 10, rr_y = 0, rr_disabled = True\<rparr>,
                                \<lparr>rr_x = 10, rr_y = 0, rr_disabled = False\<rparr>]))))
     = Inr \<lparr>px = 3, py = 0\<rparr>
   \<and> \<lparr>px = 1, py = 0\<rparr> \<noteq> \<lparr>px = 3::real, py = 0::real\<rparr>"
  by (simp add: example_points findEdgePoint_lineItem enabledReroutes_def
      reroutePoint_def closest_toward_right)

theorem connectorPoints_reroutes_witness:
  "reroutes (plainConnector None [\<lparr>rr_x = - 10, rr_y = 0, rr_disabled = True\<rparr>,
                                  \<lparr>rr_x = 10, rr_y = 0, rr_disabled = False\<rparr>]) \<noteq> []
   \<and> connectorPoints exampleEnv lineItem
       (plainConnector None [\<lparr>rr_x = - 10, rr_y = 0, rr_disabled = True\<rparr>,
                             \<lparr>rr_x = 10, rr_y = 0, rr_disabled = False\<rparr>]) None
       = Inr [\<lparr>px = 1, py = 0\<rparr>, \<lparr>px = 10, py = 0\<rparr>]
   \<and> findEdgePoint exampleEnv lineItem (reroutePoint \<lparr>rr_x = - 10, rr_y = 0, rr_disabled = True\<rparr>)
       = Inr \<lparr>px = 1, py = 0\<rparr>
   \<and> [\<lparr>px = 10::real, py = 0::real\<rparr>]
       = map reroutePoint (enabledReroutes
           (plainConnector None [\<lparr>rr_x = - 10, rr_y = 0, rr_disabled = True\<rparr>,
                                 \<lparr>rr_x = 10, rr_y = 0, rr_disabled = False\<rparr>]))"
proof -
  let ?c = "plainConnector None [\<lparr>rr_x = - 10, rr_y = 0, rr_disabled = True\<rparr>,
                                 \<lparr>rr_x = 10, rr_y = 0, rr_disabled = False\<rparr>]"
  have h1: "reroutes ?c \<noteq> []" by simp
  have h2: "connectorPoints exampleEnv lineItem ?c None
      = Inr [\<lparr>px = 1, py = 0\<rparr>, \<lparr>px = 10, py = 0\<rparr>]"
    by (rule example_points)
  have r: "hd (reroutes ?c) = \<lparr>rr_x = - 10, rr_y = 0, rr_disabled = True\<rparr>"
    by simp
  show ?thesis using h1 h2 connectorPoints_reroutes [OF h1 h2] unfolding r by simp
qed

lemma scheme_items_indexDestinationToSource [simp]:
  "scheme_items (snd (indexDestinationToSource a b s)) = scheme_items s"
  by (simp add: indexDestinationToSource_def split: lookup.splits)

text \<open>
  \<^verbatim>\<open>buildConnector\<close> stores the list of \<open>connectorPoints\<close>, computed for the source item
  and the connector as they are after the first assignments and for the destination that
  \<^verbatim>\<open>itemMap\<close> yields, and throws when that computation throws. It also throws when the
  destination found is an inherited value, or when indexing the source under the
  destination throws.
\<close>

lemma finishConnector_stores_points:
  assumes "connectorAt (scheme_items s2) (sp, ci) \<noteq> None"
  shows "(case connectorPoints e src c2 dest of
            Inl err \<Rightarrow> fst (finishConnector e sp ci src c2 dest s2) = Some err
          | Inr pts \<Rightarrow>
              fst (finishConnector e sp ci src c2 dest s2) = None
              \<and> map_option (\<lambda>c'. map_option points (conn_meta c'))
                   (connectorAt (scheme_items (snd (finishConnector e sp ci src c2 dest s2))) (sp, ci))
                 = Some (Some (Some pts)))"
proof -
  have stored: "connectorAt (scheme_items (storeConnector (sp, ci) c' s2)) (sp, ci) = Some c'" for c'
    by (rule connectorAt_storeConnector [OF assms])
  show ?thesis
    by (cases "connectorPoints e src c2 dest") (simp_all add: finishConnector_def stored)
qed

lemma buildConnector_stores_points:
  assumes "item_at (scheme_items s) sp = Some src0"
    and "connectorAt (scheme_items s) (sp, ci) = Some c0"
    and "c2 = prepareConnector e s src0 c0"
    and "src = map_fields (\<lambda>f. f\<lparr>connectors := (connectors f)[ci := c2]\<rparr>) src0"
    and "s1 = storeConnector (sp, ci) c2
           (s\<lparr>idCounter := (if truthy (conn_id c0) then idCounter s else Suc (idCounter s))\<rparr>)"
  shows "(case findItemById s1 (itemId c0) of
            Inherited \<Rightarrow> fst (buildConnector e sp ci s) = Some TypeError
          | Absent \<Rightarrow>
              (case connectorPoints e src c2 None of
                 Inl err \<Rightarrow> fst (buildConnector e sp ci s) = Some err
               | Inr pts \<Rightarrow>
                   fst (buildConnector e sp ci s) = None
                   \<and> map_option (\<lambda>c'. map_option points (conn_meta c'))
                        (connectorAt (scheme_items (snd (buildConnector e sp ci s))) (sp, ci))
                      = Some (Some (Some pts)))
          | Own d \<Rightarrow>
              (case fst (indexDestinationToSource (item_id (itemFields src)) (item_id (itemFields d)) s1) of
                 Some err \<Rightarrow> fst (buildConnector e sp ci s) = Some err
               | None \<Rightarrow>
                   (case connectorPoints e src c2 (Some d) of
                      Inl err \<Rightarrow> fst (buildConnector e sp ci s) = Some err
                    | Inr pts \<Rightarrow>
                        fst (buildConnector e sp ci s) = None
                        \<and> map_option (\<lambda>c'. map_option points (conn_meta c'))
                             (connectorAt (scheme_items (snd (buildConnector e sp ci s))) (sp, ci))
                           = Some (Some (Some pts)))))"
proof -
  have i2: "itemId c2 = itemId c0" by (simp add: assms(3))
  have at1: "connectorAt (scheme_items s1) (sp, ci) = Some c2"
    unfolding assms(5) by (rule connectorAt_storeConnector) (simp add: assms(2))
  have build: "buildConnector e sp ci s =
      (case findItemById s1 (itemId c0) of
         Absent \<Rightarrow> finishConnector e sp ci src c2 None s1
       | Own d \<Rightarrow>
           andThen (indexDestinationToSource (item_id (itemFields src)) (item_id (itemFields d)) s1)
             (finishConnector e sp ci src c2 (Some d))
       | Inherited \<Rightarrow>
           (Some TypeError, snd (indexDestinationToSource (item_id (itemFields src)) None s1)))"
    unfolding buildConnector_def Let_def assms(1) assms(2) option.case assms(3) [symmetric]
      assms(4) [symmetric] assms(5) [symmetric] i2 ..
  show ?thesis
  proof (cases "findItemById s1 (itemId c0)")
    case Absent
    have b: "buildConnector e sp ci s = finishConnector e sp ci src c2 None s1"
      by (simp add: build Absent)
    have "connectorAt (scheme_items s1) (sp, ci) \<noteq> None" by (simp add: at1)
    from finishConnector_stores_points [OF this, of e src c2 None]
    show ?thesis unfolding Absent lookup.case b .
  next
    case (Own d)
    obtain r s2 where ix: "indexDestinationToSource (item_id (itemFields src)) (item_id (itemFields d)) s1 = (r, s2)"
      by (cases "indexDestinationToSource (item_id (itemFields src)) (item_id (itemFields d)) s1")
    have "scheme_items s2 = scheme_items s1"
      using scheme_items_indexDestinationToSource [of "item_id (itemFields src)" "item_id (itemFields d)" s1]
      by (simp add: ix)
    then have "connectorAt (scheme_items s2) (sp, ci) = connectorAt (scheme_items s1) (sp, ci)"
      by (simp add: connectorAt_def)
    then have at2: "connectorAt (scheme_items s2) (sp, ci) \<noteq> None" by (simp add: at1)
    show ?thesis
    proof (cases r)
      case None
      have b: "buildConnector e sp ci s = finishConnector e sp ci src c2 (Some d) s2"
        by (simp add: build Own ix None andThen_def)
      from finishConnector_stores_points [OF at2, of e src c2 "Some d"]
      show ?thesis unfolding Own lookup.case ix fst_conv None option.case b .
    next
      case (Some err)
      have b: "buildConnector e sp ci s = (Some err, s2)"
        by (simp add: build Own ix Some andThen_def)
      show ?thesis unfolding Own lookup.case ix fst_conv Some option.case b by simp
    qed
  next
    case Inherited
    then show ?thesis by (simp add: build)
  qed
qed

section \<open>Re-parenting\<close>

lemmas remount_eval = remountItemInsideOtherItem_def remountChecked_def isMovedIntoOwnChild_def
  angleCorrectionOf_def angleOf_def hasTransform_def moveItem_def removeChildAt_def
  insertChildAt_def findItemById_def getProperty_def bindE_def map_fields_def

lemma nested_reindexed:
  "newContainer e (nestedItems pa ia) =
    (None,
      \<lparr>scheme_items =
         [Item
           \<lparr>item_id = Some ''P'',
              item_area = Some (pa\<lparr>area_x := 0, area_y := 0, area_r := 90\<rparr>),
              connectors = [], item_group = None, item_shape = None,
              item_meta = Some rootMeta, item_props = plainProps e\<rparr>
           [Item
             \<lparr>item_id = Some ''I'',
                item_area = Some (ia\<lparr>area_x := 10, area_y := 10\<rparr>),
                connectors = [], item_group = None, item_shape = None,
                item_meta =
                  Some
                   \<lparr>collapsed = False, collapseBitMask = 0,
                      meta_transform = Some \<lparr>tf_x = 0, tf_y = 0, tf_r = 90\<rparr>,
                      ancestorIds = Some [Some ''P''], parentId = Some ''P'',
                      selected = False, hovered = False\<rparr>,
                item_props = plainProps e\<rparr>
             []]],
         selectedItems = [], selectedConnectors = [],
         itemMap = [''P'' \<mapsto> [0], ''I'' \<mapsto> [0, 0]], itemArray = [[0], [0, 0]],
         destinationToSourceLookup = \<lambda>k. None, copyBuffer = [],
         connectorsMap = \<lambda>k. None, revision = Suc 0, idCounter = 0,
         events = []\<rparr>)"
  by (simp add: reindex_eval nestedItems_def)

lemma nested_remounted:
  "remountItemInsideOtherItem e (Some ''I'') None 0 (snd (newContainer e (nestedItems pa ia))) =
    (None,
      \<lparr>scheme_items =
         [Item
           \<lparr>item_id = Some ''I'',
              item_area = Some (ia\<lparr>area_x := - 10, area_y := 10, area_r := area_r ia + 90\<rparr>),
              connectors = [], item_group = None, item_shape = None,
              item_meta = Some rootMeta, item_props = plainProps e\<rparr>
           [],
          Item
           \<lparr>item_id = Some ''P'',
              item_area = Some (pa\<lparr>area_x := 0, area_y := 0, area_r := 90\<rparr>),
              connectors = [], item_group = None, item_shape = None,
              item_meta = Some rootMeta, item_props = plainProps e\<rparr>
           []],
         selectedItems = [], selectedConnectors = [],
         itemMap = [''I'' \<mapsto> [0], ''P'' \<mapsto> [Suc 0]], itemArray = [[0], [Suc 0]],
         destinationToSourceLookup = \<lambda>k. None, copyBuffer = [],
         connectorsMap = \<lambda>k. None, revision = Suc (Suc 0), idCounter = 0,
         events = []\<rparr>)"
  unfolding nested_reindexed
  by (simp add: reindex_eval remount_eval worldPointOnItem_def localPointOnItem_def
      transformOf_def)

text \<open>
  C2. Item \<^verbatim>\<open>I\<close> at local \<open>(10, 10)\<close> inside \<^verbatim>\<open>P\<close>, which is at the world origin and
  rotated by 90 degrees (the other measures of both items are arbitrary). The world
  position of \<^verbatim>\<open>I\<close> is \<open>(-10, 10)\<close>. \<^verbatim>\<open>remountItemInsideOtherItem(I, null, 0)\<close> returns
  normally and leaves \<^verbatim>\<open>I\<close> as the first root item, with area \<open>x = -10\<close>, \<open>y = 10\<close>,
  \<open>r\<close> increased by 90, and \<open>worldPointOnItem 0 0\<close> still \<open>(-10, 10)\<close>; \<^verbatim>\<open>P\<close> is left
  without children.
\<close>

theorem remount_to_root_keeps_world_position:
  "(let s = snd (newContainer e (nestedItems pa ia));
        r = remountItemInsideOtherItem e (Some ''I'') None 0 s
    in fst (newContainer e (nestedItems pa ia)) = None
       \<and> idOf s [0, 0] = Some ''I''
       \<and> map_option (worldPointOnItem 0 0) (item_at (scheme_items s) [0, 0]) = Some \<lparr>px = - 10, py = 10\<rparr>
       \<and> fst r = None
       \<and> idOf (snd r) [0] = Some ''I''
       \<and> map_option (\<lambda>it. item_area (itemFields it)) (item_at (scheme_items (snd r)) [0])
           = Some (Some (ia\<lparr>area_x := - 10, area_y := 10, area_r := area_r ia + 90\<rparr>))
       \<and> map_option (worldPointOnItem 0 0) (item_at (scheme_items (snd r)) [0]) = Some \<lparr>px = - 10, py = 10\<rparr>
       \<and> map_option childItems (item_at (scheme_items (snd r)) [1]) = Some []
       \<and> length (scheme_items (snd r)) = 2)"
  unfolding Let_def nested_remounted unfolding nested_reindexed
  by (simp add: worldPointOnItem_def transformOf_def idOf_def rootMeta_def)

text \<open>
  C3. When \<^verbatim>\<open>A\<close> and \<^verbatim>\<open>B\<close> are both indexed and the id of \<^verbatim>\<open>A\<close> is among
  \<^verbatim>\<open>B.meta.ancestorIds\<close>, \<^verbatim>\<open>remountItemInsideOtherItem(A, B, position)\<close> returns
  normally and leaves the whole container state, the forest included, as it was.
\<close>

theorem remount_into_descendant_is_noop:
  assumes "findItemById s a = Own ita"
    and "truthy b"
    and "findItemById s b = Own itb"
    and "item_meta (itemFields itb) = Some mb"
    and "ancestorIds mb = Some anc"
    and "item_id (itemFields ita) \<in> set anc"
  shows "remountItemInsideOtherItem e a b position s = (None, s)"
  using assms by (simp add: remountItemInsideOtherItem_def isMovedIntoOwnChild_def Let_def)

theorem remount_into_descendant_is_noop_witness:
  "map_lookup (\<lambda>it. item_id (itemFields it))
        (findItemById (snd (newContainer exampleEnv (nestedItems exampleArea exampleArea))) (Some ''P''))
     = Own (Some ''P'')
   \<and> truthy (Some ''I'')
   \<and> map_lookup (\<lambda>it. map_option ancestorIds (item_meta (itemFields it)))
        (findItemById (snd (newContainer exampleEnv (nestedItems exampleArea exampleArea))) (Some ''I''))
     = Own (Some (Some [Some ''P'']))
   \<and> Some ''P'' \<in> set [Some ''P'']
   \<and> remountItemInsideOtherItem exampleEnv (Some ''P'') (Some ''I'') 0
        (snd (newContainer exampleEnv (nestedItems exampleArea exampleArea)))
     = (None, snd (newContainer exampleEnv (nestedItems exampleArea exampleArea)))"
proof -
  let ?s = "snd (newContainer exampleEnv (nestedItems exampleArea exampleArea))"
  obtain ita where fa: "findItemById ?s (Some ''P'') = Own ita"
    and ida: "item_id (itemFields ita) = Some ''P''"
    unfolding nested_reindexed by (simp add: findItemById_def getProperty_def key_of_def)
  obtain itb mb where fb: "findItemById ?s (Some ''I'') = Own itb"
    and mb: "item_meta (itemFields itb) = Some mb" and anc: "ancestorIds mb = Some [Some ''P'']"
    unfolding nested_reindexed by (simp add: findItemById_def getProperty_def key_of_def)
  have t: "truthy (Some ''I'')" by (simp add: truthy_def)
  have mem: "item_id (itemFields ita) \<in> set [Some ''P'']" by (simp add: ida)
  show ?thesis
    using remount_into_descendant_is_noop [OF fa t fb mb anc mem, of exampleEnv 0]
      fa fb mb anc ida t
    by simp
qed

section \<open>Selection and groups\<close>

lemmas select_eval = selectItem_def selectItemInclusive_def sortSelectedItemsByAncestors_def
  selectGroupMember_def deselectOther_def setSelected_def metaAt_def ancestorDepth_def
  andThen_def emit_def idOf_def groupOf_def rootRefs_def map_fields_def

lemma nestedGroup_reindexed:
  "newContainer e nestedGroup =
    (None,
      \<lparr>scheme_items =
         [Item
           \<lparr>item_id = Some ''A'',
              item_area = Some \<lparr>area_x = 0, area_y = 0, area_w = 10, area_h = 10, area_r = 0\<rparr>,
              connectors = [], item_group = Some ''g'', item_shape = None,
              item_meta = Some rootMeta, item_props = plainProps e\<rparr>
           [Item
             \<lparr>item_id = Some ''B'',
                item_area = Some \<lparr>area_x = 0, area_y = 0, area_w = 10, area_h = 10, area_r = 0\<rparr>,
                connectors = [], item_group = Some ''g'', item_shape = None,
                item_meta =
                  Some (rootMeta\<lparr>ancestorIds := Some [Some ''A''], parentId := Some ''A''\<rparr>),
                item_props = plainProps e\<rparr>
             []]],
         selectedItems = [], selectedConnectors = [],
         itemMap = [''A'' \<mapsto> [0], ''B'' \<mapsto> [0, 0]], itemArray = [[0], [0, 0]],
         destinationToSourceLookup = \<lambda>k. None, copyBuffer = [],
         connectorsMap = \<lambda>k. None, revision = Suc 0, idCounter = 0,
         events = []\<rparr>)"
  by (simp add: reindex_eval nestedGroup_def groupedItem_def)

lemma flatGroup_reindexed:
  "newContainer e flatGroup =
    (None,
      \<lparr>scheme_items =
         [Item
           \<lparr>item_id = Some ''A'',
              item_area = Some \<lparr>area_x = 0, area_y = 0, area_w = 10, area_h = 10, area_r = 0\<rparr>,
              connectors = [], item_group = Some ''g'', item_shape = None,
              item_meta = Some rootMeta, item_props = plainProps e\<rparr>
           [],
          Item
           \<lparr>item_id = Some ''B'',
              item_area = Some \<lparr>area_x = 0, area_y = 0, area_w = 10, area_h = 10, area_r = 0\<rparr>,
              connectors = [], item_group = Some ''g'', item_shape = None,
              item_meta = Some rootMeta, item_props = plainProps e\<rparr>
           []],
         selectedItems = [], selectedConnectors = [],
         itemMap = [''A'' \<mapsto> [0], ''B'' \<mapsto> [Suc 0]], itemArray = [[0], [Suc 0]],
         destinationToSourceLookup = \<lambda>k. None, copyBuffer = [],
         connectorsMap = \<lambda>k. None, revision = Suc 0, idCounter = 0,
         events = []\<rparr>)"
  by (simp add: reindex_eval flatGroup_def groupedItem_def)

text \<open>
  C4. The claim is that selecting one member of a group selects every member,
  wherever the members are nested. \<^verbatim>\<open>selectItem\<close> looks for the other members among
  \<^verbatim>\<open>this.scheme.items\<close>, the root items, only. In the scheme whose root item \<^verbatim>\<open>A\<close> has
  the child \<^verbatim>\<open>B\<close>, both of group \<^verbatim>\<open>g\<close>, \<^verbatim>\<open>selectItem(A)\<close> returns normally with \<^verbatim>\<open>A\<close>
  alone in the selection and \<^verbatim>\<open>B.meta.selected\<close> still false.
\<close>

theorem selectItem_misses_nested_member:
  "(let s = snd (newContainer e nestedGroup);
        r = selectItem [0] False s
    in groupOf s [0] = Some ''g'' \<and> groupOf s [0, 0] = Some ''g''
       \<and> fst r = None
       \<and> selectedItems (snd r) = [[0]]
       \<and> map_option selected (metaAt (snd r) [0]) = Some True
       \<and> map_option selected (metaAt (snd r) [0, 0]) = Some False)"
  unfolding nestedGroup_reindexed
  by (simp add: select_eval truthy_def rootMeta_def)

text \<open>
  C9. The claim is that \<^verbatim>\<open>ungroupItem\<close> on one of two items of a group clears the
  group of both and does not throw. \<^verbatim>\<open>ungroupItem\<close> clears the group of its argument and
  then calls \<^verbatim>\<open>this.scheme.getItems()\<close>; a scheme that is plain data, as the rest of the
  container reads it, has no such method, the call throws and the other member keeps
  its group.
\<close>

theorem ungroupItem_throws_on_plain_scheme:
  "(let s = snd (newContainer exampleEnv flatGroup);
        r = ungroupItem exampleEnv [0] s
    in groupOf s [0] = Some ''g'' \<and> groupOf s [1] = Some ''g''
       \<and> fst r = Some TypeError
       \<and> groupOf (snd r) [0] = None
       \<and> groupOf (snd r) [1] = Some ''g'')"
  unfolding flatGroup_reindexed
  by (simp add: ungroupItem_def setGroup_def groupOf_def map_fields_def truthy_def exampleEnv_def)

text \<open>
  For comparison: with both members of the group at the root, \<^verbatim>\<open>selectItem(A)\<close> selects
  both; and on a scheme object that has a \<^verbatim>\<open>getItems\<close> method, \<^verbatim>\<open>ungroupItem(A)\<close> clears
  the group of both.
\<close>

lemma selectItem_selects_root_members:
  "(let r = selectItem [0] False (snd (newContainer e flatGroup))
    in fst r = None
       \<and> selectedItems (snd r) = [[0], [1]]
       \<and> map_option selected (metaAt (snd r) [0]) = Some True
       \<and> map_option selected (metaAt (snd r) [1]) = Some True)"
  unfolding flatGroup_reindexed
  by (simp add: select_eval truthy_def rootMeta_def)

lemma ungroupItem_with_getItems:
  "(let r = ungroupItem methodEnv [0] (snd (newContainer methodEnv flatGroup))
    in fst r = None \<and> groupOf (snd r) [0] = None \<and> groupOf (snd r) [1] = None)"
  unfolding flatGroup_reindexed
  by (simp add: ungroupItem_def setGroup_def groupOf_def map_fields_def truthy_def methodEnv_def
      exampleEnv_def)

section \<open>Views are kept by updates at a path\<close>

lemma childItems_mapItem [simp]: "childItems (mapItem g it) = map (mapItem g) (childItems it)"
  by (cases it) simp

lemma itemFields_mapItem [simp]: "itemFields (mapItem g it) = g (itemFields it)"
  by (cases it) simp

lemma item_at_map: "item_at (map (mapItem g) items) p = map_option (mapItem g) (item_at items p)"
proof (induction p arbitrary: items)
  case Nil
  show ?case by simp
next
  case (Cons i p)
  show ?case
  proof (cases "i < length items")
    case True
    then show ?thesis using Cons.IH [of "childItems (items ! i)"] by simp
  next
    case False
    then show ?thesis by simp
  qed
qed

lemma update_at_absent: "item_at items p = None \<Longrightarrow> update_at g p items = items"
proof (induction p arbitrary: items)
  case Nil
  show ?case by simp
next
  case (Cons i p)
  show ?case
  proof (cases "i < length items")
    case True
    with Cons.prems have p: "p \<noteq> []" and sub: "item_at (childItems (items ! i)) p = None"
      by (auto split: if_splits)
    have "Item (itemFields (items ! i)) (update_at g p (childItems (items ! i))) = items ! i"
      using Cons.IH [OF sub] by simp
    then show ?thesis using True p by simp
  next
    case False
    then show ?thesis by simp
  qed
qed

lemma mapItem_update_at:
  assumes "item_at items p = Some it" and "mapItem h (g it) = mapItem h it"
  shows "map (mapItem h) (update_at g p items) = map (mapItem h) items"
  using assms
proof (induction p arbitrary: items)
  case Nil
  then show ?case by simp
next
  case (Cons i p)
  from Cons.prems(1) have i: "i < length items" by (auto split: if_splits)
  show ?case
  proof (cases "p = []")
    case True
    with Cons.prems i have "mapItem h (g (items ! i)) = mapItem h (items ! i)" by simp
    then have "(map (mapItem h) items)[i := mapItem h (g (items ! i))] = map (mapItem h) items"
      using i by (simp add: list_update_same_conv)
    then show ?thesis using True i by (simp add: map_update)
  next
    case False
    with Cons.prems(1) i have sub: "item_at (childItems (items ! i)) p = Some it" by simp
    have "map (mapItem h) (update_at g p (childItems (items ! i)))
        = map (mapItem h) (childItems (items ! i))"
      by (rule Cons.IH [OF sub Cons.prems(2)])
    then have "mapItem h (Item (itemFields (items ! i)) (update_at g p (childItems (items ! i))))
        = mapItem h (items ! i)"
      by (cases "items ! i") simp
    then have "(map (mapItem h) items)
          [i := mapItem h (Item (itemFields (items ! i)) (update_at g p (childItems (items ! i))))]
        = map (mapItem h) items"
      using i by (simp add: list_update_same_conv)
    then show ?thesis using False i by (simp add: map_update)
  qed
qed

lemma mapItem_update_fields:
  assumes "\<And>f. h (g f) = h f"
  shows "map (mapItem h) (update_at (map_fields g) p items) = map (mapItem h) items"
proof (cases "item_at items p")
  case None
  then show ?thesis by (simp add: update_at_absent)
next
  case (Some it)
  have "mapItem h (map_fields g it) = mapItem h it"
    by (cases it) (simp add: map_fields_def assms)
  with Some show ?thesis by (rule mapItem_update_at)
qed


section \<open>A reindex keeps the stripped forest\<close>

lemma extendObject_idem: "extendObject (extendObject obj ds) ds = extendObject obj ds"
proof -
  define new where "new = filter (\<lambda>kv. map_of obj (fst kv) = None) ds"
  have "map_of (obj @ new) (fst kv) \<noteq> None" if "kv \<in> set ds" for kv
  proof (cases "map_of obj (fst kv) = None")
    case True
    with that have "kv \<in> set new" by (simp add: new_def)
    then have "fst kv \<in> fst ` set new" by (rule imageI)
    then have "map_of new (fst kv) \<noteq> None" by (simp add: map_of_eq_None_iff)
    then show ?thesis by (auto simp: map_add_def split: option.splits)
  next
    case False
    then show ?thesis by (auto simp: map_add_def split: option.splits)
  qed
  then have "filter (\<lambda>kv. map_of (obj @ new) (fst kv) = None) ds = []"
    by (simp add: filter_empty_conv)
  then show ?thesis by (simp add: extendObject_def new_def [symmetric])
qed

lemma defaultItemProps_shape:
  "item_shape f' = item_shape f \<Longrightarrow> defaultItemProps e f' = defaultItemProps e f"
  by (simp add: defaultItemProps_def shapeDefaults_def)


lemma stripConnector_prepareConnector [simp]:
  "stripConnector e (prepareConnector e s src c) = stripConnector e c"
  by (simp add: stripConnector_def prepareConnector_def enrichConnectorWithDefaultStyle_def
      extendObject_idem)

lemma stripConnector_meta [simp]: "stripConnector e (c\<lparr>conn_meta := m\<rparr>) = stripConnector e c"
  by (simp add: stripConnector_def)

lemma stripFields_connectors:
  assumes "map (stripConnector e) cs = map (stripConnector e) (connectors f)"
  shows "stripFields e (f\<lparr>connectors := cs\<rparr>) = stripFields e f"
proof -
  have "defaultItemProps e (f\<lparr>connectors := cs\<rparr>) = defaultItemProps e f"
    by (rule defaultItemProps_shape) simp
  then show ?thesis
    using assms by (simp add: stripFields_def enrichItemWithDefaults_def areaOrDefault_def)
qed

lemma stripFields_meta: "stripFields e (f\<lparr>item_meta := m\<rparr>) = stripFields e f"
proof -
  have "defaultItemProps e (f\<lparr>item_meta := m\<rparr>) = defaultItemProps e f"
    by (rule defaultItemProps_shape) simp
  then show ?thesis
    by (simp add: stripFields_def enrichItemWithDefaults_def areaOrDefault_def)
qed


lemma strip_storeConnector:
  assumes "connectorAt (scheme_items s) r = Some c0" and "stripConnector e c = stripConnector e c0"
  shows "map (strip e) (scheme_items (storeConnector r c s)) = map (strip e) (scheme_items s)"
proof -
  from assms(1) obtain it where it: "item_at (scheme_items s) (fst r) = Some it"
    and ci: "snd r < length (connectors (itemFields it))"
    and c0: "connectors (itemFields it) ! snd r = c0"
    by (auto simp: connectorAt_def split: option.splits if_splits)
  have "map (stripConnector e) ((connectors (itemFields it))[snd r := c])
      = map (stripConnector e) (connectors (itemFields it))"
    using ci c0 assms(2) by (simp add: map_update list_update_same_conv)
  then have "stripFields e ((itemFields it)\<lparr>connectors := (connectors (itemFields it))[snd r := c]\<rparr>)
      = stripFields e (itemFields it)"
    by (rule stripFields_connectors)
  then have "mapItem (stripFields e)
        (map_fields (\<lambda>f. f\<lparr>connectors := (connectors f)[snd r := c]\<rparr>) it)
      = mapItem (stripFields e) it"
    by (cases it) (simp add: map_fields_def)
  with it show ?thesis
    unfolding storeConnector_def strip_def by (simp add: mapItem_update_at)
qed

lemma strip_finishConnector:
  assumes "connectorAt (scheme_items s2) (sp, ci) = Some c2"
  shows "map (strip e) (scheme_items (snd (finishConnector e sp ci src c2 dest s2)))
       = map (strip e) (scheme_items s2)"
proof (cases "connectorPoints e src c2 dest")
  case (Inl err)
  then show ?thesis by (simp add: finishConnector_def)
next
  case (Inr pts)
  from strip_storeConnector [OF assms, of e "c2\<lparr>conn_meta := Some ((metaOf c2)\<lparr>points := Some pts\<rparr>)\<rparr>"]
  show ?thesis by (simp add: finishConnector_def Inr)
qed

lemma strip_buildConnector:
  "map (strip e) (scheme_items (snd (buildConnector e sp ci s))) = map (strip e) (scheme_items s)"
proof (cases "item_at (scheme_items s) sp")
  case None
  then show ?thesis by (simp add: buildConnector_def)
next
  case (Some src)
  show ?thesis
  proof (cases "connectorAt (scheme_items s) (sp, ci)")
    case None
    with Some show ?thesis by (simp add: buildConnector_def)
  next
    case c0: (Some c0)
    define c2 where "c2 = prepareConnector e s src c0"
    define s0 where "s0 = s\<lparr>idCounter := (if truthy (conn_id c0) then idCounter s else Suc (idCounter s))\<rparr>"
    define s1 where "s1 = storeConnector (sp, ci) c2 s0"
    define src2 where "src2 = map_fields (\<lambda>f. f\<lparr>connectors := (connectors f)[ci := c2]\<rparr>) src"
    have at0: "connectorAt (scheme_items s0) (sp, ci) = Some c0"
      by (simp add: s0_def c0)
    have st1: "map (strip e) (scheme_items s1) = map (strip e) (scheme_items s)"
      unfolding s1_def using strip_storeConnector [OF at0, of e c2] by (simp add: c2_def s0_def)
    have at1: "connectorAt (scheme_items s1) (sp, ci) = Some c2"
      unfolding s1_def by (rule connectorAt_storeConnector) (simp add: at0)
    have fin: "map (strip e) (scheme_items (snd (finishConnector e sp ci src2 c2 dest s2)))
        = map (strip e) (scheme_items s)"
      if "scheme_items s2 = scheme_items s1" for dest s2
    proof -
      have "connectorAt (scheme_items s2) (sp, ci) = Some c2" using that at1 by (simp add: connectorAt_def)
      from strip_finishConnector [OF this, of e src2 dest] that st1 show ?thesis by simp
    qed
    have build: "buildConnector e sp ci s =
        (case findItemById s1 (itemId c2) of
           Absent \<Rightarrow> finishConnector e sp ci src2 c2 None s1
         | Own d \<Rightarrow>
             andThen (indexDestinationToSource (item_id (itemFields src2)) (item_id (itemFields d)) s1)
               (finishConnector e sp ci src2 c2 (Some d))
         | Inherited \<Rightarrow>
             (Some TypeError, snd (indexDestinationToSource (item_id (itemFields src2)) None s1)))"
      unfolding buildConnector_def Let_def Some c0 option.case c2_def [symmetric]
        s0_def [symmetric] s1_def [symmetric] src2_def [symmetric] ..
    show ?thesis
    proof (cases "findItemById s1 (itemId c2)")
      case Absent
      then show ?thesis by (simp add: build fin)
    next
      case (Own d)
      obtain r s2 where ix: "indexDestinationToSource (item_id (itemFields src2)) (item_id (itemFields d)) s1 = (r, s2)"
        by (cases "indexDestinationToSource (item_id (itemFields src2)) (item_id (itemFields d)) s1")
      have s2: "scheme_items s2 = scheme_items s1"
        using scheme_items_indexDestinationToSource [of "item_id (itemFields src2)" "item_id (itemFields d)" s1]
        by (simp add: ix)
      show ?thesis
      proof (cases r)
        case None
        then show ?thesis by (simp add: build Own ix andThen_def fin [OF s2])
      next
        case (Some err)
        then show ?thesis by (simp add: build Own ix andThen_def s2 st1)
      qed
    next
      case Inherited
      then show ?thesis by (simp add: build st1)
    qed
  qed
qed






section \<open>Connecting items\<close>

lemma view_at:
  assumes "map (mapItem h) xs = map (mapItem h) ys"
  shows "map_option (\<lambda>it. h (itemFields it)) (item_at xs q)
       = map_option (\<lambda>it. h (itemFields it)) (item_at ys q)"
proof -
  have "map_option itemFields (item_at (map (mapItem h) xs) q)
      = map_option itemFields (item_at (map (mapItem h) ys) q)"
    using assms by simp
  then show ?thesis by (simp add: item_at_map option.map_comp comp_def)
qed

lemma strip_at:
  assumes "map (strip e) xs = map (strip e) ys" and "item_at ys q = Some it"
  shows "\<exists>it'. item_at xs q = Some it' \<and> stripFields e (itemFields it') = stripFields e (itemFields it)"
  using view_at [of "stripFields e" xs ys q] assms by (auto simp: strip_def)

lemma itemId_of_stripped:
  assumes "map (stripConnector e) cs = map (stripConnector e) cs'"
  shows "map itemId cs = map itemId cs'"
proof -
  have "map itemId cs = map itemId (map (stripConnector e) cs)"
    by (simp add: stripConnector_def)
  also have "\<dots> = map itemId (map (stripConnector e) cs')" using assms by simp
  also have "\<dots> = map itemId cs'" by (simp add: stripConnector_def)
  finally show ?thesis .
qed

lemma filter_itemId:
  "length (filter (\<lambda>c. itemId c = d) cs) = length (filter (\<lambda>i. i = d) (map itemId cs))"
  by (induction cs) simp_all

lemma connectItems_self: "connectItems e sp sp s = (None, s)"
  by (simp add: connectItems_def split: option.splits)

text \<open>
  C10. \<^verbatim>\<open>connectItems(S, S)\<close> changes nothing. For distinct items \<^verbatim>\<open>S\<close> and \<^verbatim>\<open>D\<close> with
  ids: when \<^verbatim>\<open>S\<close> already has a connector to the id of \<^verbatim>\<open>D\<close>, \<^verbatim>\<open>connectItems(S, D)\<close>
  changes nothing; when it has none, \<^verbatim>\<open>S\<close> has exactly one such connector after the
  call (whether or not building its points threw), and a second call changes nothing.
\<close>

theorem connectItems_idempotent:
  assumes S: "item_at (scheme_items s) sp = Some S"
    and D: "item_at (scheme_items s) dp = Some D"
    and neq: "sp \<noteq> dp"
    and idS: "truthy (item_id (itemFields S))"
    and idD: "truthy (item_id (itemFields D))"
  shows "connectItems e sp sp s = (None, s)
       \<and> (if connectorsTo s sp (item_id (itemFields D)) \<noteq> []
          then connectItems e sp dp s = (None, s)
          else length (connectorsTo (snd (connectItems e sp dp s)) sp (item_id (itemFields D))) = 1
             \<and> connectItems e sp dp (snd (connectItems e sp dp s))
                 = (None, snd (connectItems e sp dp s)))"
proof (cases "connectorsTo s sp (item_id (itemFields D)) \<noteq> []")
  case True
  then have "list_ex (\<lambda>c. itemId c = item_id (itemFields D)) (connectors (itemFields S))"
    by (simp add: connectorsTo_def S list_ex_iff filter_empty_conv)
  then have "connectItems e sp dp s = (None, s)"
    by (simp add: connectItems_def S D)
  with True show ?thesis by (simp add: connectItems_self)
next
  case False
  define d where "d = item_id (itemFields D)"
  define c where "c = newConnector e (idCounter s) d"
  define g where "g = (\<lambda>f::item_fields. f\<lparr>connectors := connectors f @ [c]\<rparr>)"
  define s' where "s' = s\<lparr>idCounter := Suc (idCounter s),
      scheme_items := update_at (map_fields g) sp (scheme_items s)\<rparr>"
  define s1 where "s1 = snd (buildConnector e sp (length (connectors (itemFields S))) s')"
  from False have none: "filter (\<lambda>c. itemId c = d) (connectors (itemFields S)) = []"
    by (simp add: connectorsTo_def S d_def)
  then have nex: "\<not> list_ex (\<lambda>c. itemId c = d) (connectors (itemFields S))"
    by (simp add: list_ex_iff filter_empty_conv)
  have first: "connectItems e sp dp s
      = buildConnector e sp (length (connectors (itemFields S))) s'"
    using neq idS idD nex
    by (simp add: connectItems_def S D d_def [symmetric] c_def [symmetric] g_def [symmetric]
        s'_def)
  have s1: "snd (connectItems e sp dp s) = s1" by (simp add: first s1_def)
  have S': "item_at (scheme_items s') sp = Some (map_fields g S)"
    by (simp add: s'_def item_at_update_at [OF S])
  have "map (mapItem (\<lambda>f. f\<lparr>connectors := []\<rparr>)) (scheme_items s')
      = map (mapItem (\<lambda>f. f\<lparr>connectors := []\<rparr>)) (scheme_items s)"
    unfolding s'_def by (simp add: mapItem_update_fields g_def)
  from view_at [OF this, of dp] D
  obtain D' where D': "item_at (scheme_items s') dp = Some D'"
    and idD': "item_id (itemFields D') = d"
    by (auto simp: d_def) (metis item_fields.select_convs(1) item_fields.surjective
        item_fields.update_convs(3))
  have st: "map (strip e) (scheme_items s1) = map (strip e) (scheme_items s')"
    unfolding s1_def by (rule strip_buildConnector)
  from strip_at [OF st S'] obtain S1 where S1: "item_at (scheme_items s1) sp = Some S1"
    and vS1: "stripFields e (itemFields S1) = stripFields e (itemFields (map_fields g S))"
    by blast
  from strip_at [OF st D'] obtain D1 where D1: "item_at (scheme_items s1) dp = Some D1"
    and vD1: "stripFields e (itemFields D1) = stripFields e (itemFields D')"
    by blast
  have idD1: "item_id (itemFields D1) = d"
  proof -
    have "item_id (stripFields e (itemFields D1)) = item_id (stripFields e (itemFields D'))"
      using vD1 by simp
    then show ?thesis by (simp add: stripFields_def enrichItemWithDefaults_def idD')
  qed
  have "map (stripConnector e) (connectors (itemFields S1))
      = map (stripConnector e) (connectors (itemFields S) @ [c])"
  proof -
    have "connectors (stripFields e (itemFields S1))
        = connectors (stripFields e (itemFields (map_fields g S)))"
      using vS1 by simp
    then show ?thesis by (simp add: stripFields_def map_fields_def g_def)
  qed
  then have targets: "map itemId (connectors (itemFields S1))
      = map itemId (connectors (itemFields S) @ [c])"
    by (rule itemId_of_stripped)
  have cd: "itemId c = d" by (simp add: c_def newConnector_def)
  have "length (filter (\<lambda>c. itemId c = d) (connectors (itemFields S1)))
      = length (filter (\<lambda>i. i = d) (map itemId (connectors (itemFields S) @ [c])))"
    by (simp only: filter_itemId targets)
  also have "\<dots> = length (filter (\<lambda>c. itemId c = d) (connectors (itemFields S) @ [c]))"
    by (simp only: filter_itemId)
  also have "\<dots> = 1" using none cd by simp
  finally have count: "length (filter (\<lambda>c. itemId c = d) (connectors (itemFields S1))) = 1" .
  then have "filter (\<lambda>c. itemId c = d) (connectors (itemFields S1)) \<noteq> []"
    by auto
  then have ex: "list_ex (\<lambda>c. itemId c = item_id (itemFields D1)) (connectors (itemFields S1))"
    unfolding idD1 by (simp add: list_ex_iff filter_empty_conv)
  have second: "connectItems e sp dp s1 = (None, s1)"
    using ex by (simp add: connectItems_def S1 D1)
  have "length (connectorsTo s1 sp d) = 1"
    using count by (simp add: connectorsTo_def S1)
  with second False show ?thesis
    by (simp add: connectItems_self s1 d_def)
qed

theorem connectItems_idempotent_witness:
  "map_option (\<lambda>it. item_id (itemFields it))
      (item_at (scheme_items (snd (newContainer exampleEnv flatGroup))) [0]) = Some (Some ''A'')
   \<and> map_option (\<lambda>it. item_id (itemFields it))
      (item_at (scheme_items (snd (newContainer exampleEnv flatGroup))) [1]) = Some (Some ''B'')
   \<and> [0] \<noteq> [1::nat] \<and> truthy (Some ''A'') \<and> truthy (Some ''B'')
   \<and> connectorsTo (snd (newContainer exampleEnv flatGroup)) [0] (Some ''B'') = []
   \<and> length (connectorsTo (snd (connectItems exampleEnv [0] [1] (snd (newContainer exampleEnv flatGroup))))
        [0] (Some ''B'')) = 1
   \<and> connectItems exampleEnv [0] [1]
        (snd (connectItems exampleEnv [0] [1] (snd (newContainer exampleEnv flatGroup))))
      = (None, snd (connectItems exampleEnv [0] [1] (snd (newContainer exampleEnv flatGroup))))"
proof -
  let ?s = "snd (newContainer exampleEnv flatGroup)"
  obtain S where S: "item_at (scheme_items ?s) [0] = Some S"
    and idS: "item_id (itemFields S) = Some ''A''" and cS: "connectors (itemFields S) = []"
    unfolding flatGroup_reindexed by simp
  obtain D where D: "item_at (scheme_items ?s) [1] = Some D"
    and idD: "item_id (itemFields D) = Some ''B''"
    unfolding flatGroup_reindexed by simp
  have neq: "[0] \<noteq> [1::nat]" by simp
  have tS: "truthy (item_id (itemFields S))" by (simp add: idS truthy_def)
  have tD: "truthy (item_id (itemFields D))" by (simp add: idD truthy_def)
  have none: "connectorsTo ?s [0] (Some ''B'') = []"
    unfolding connectorsTo_def S by (simp add: cS)
  show ?thesis
    using connectItems_idempotent [OF S D neq tS tD, of exampleEnv] S D idS idD none
    by (simp add: truthy_def)
qed

section \<open>Selection changes selection flags only\<close>

lemma mapItem_mapItem: "mapItem h (mapItem g it) = mapItem (\<lambda>f. h (g f)) it"
  by (induction it) simp

lemma strip_unselected [simp]: "strip e (unselected it) = strip e it"
proof -
  have "(\<lambda>f. stripFields e (unselectFields f)) = stripFields e"
    by (rule ext) (simp add: unselectFields_def stripFields_meta)
  then show ?thesis by (simp add: strip_def unselected_def mapItem_mapItem)
qed













section \<open>Copy and paste\<close>








lemma transformOf_unselected [simp]: "transformOf (unselected it) = transformOf it"
  by (cases it) (simp add: transformOf_def unselected_def unselectFields_def split: option.splits)

lemma worldPoint_unselected [simp]: "worldPointOnItem x y (unselected it) = worldPointOnItem x y it"
proof -
  have "item_area (itemFields (unselected it)) = item_area (itemFields it)"
    by (cases it) (simp add: unselected_def unselectFields_def)
  then show ?thesis
    unfolding worldPointOnItem_def by (simp only: transformOf_unselected)
qed






lemma nestedUnder_reindexed:
  "nestedUnder i =
     \<lparr>scheme_items =
        [Item
          \<lparr>item_id = i, item_area = Some exampleArea, connectors = [], item_group = None,
             item_shape = None, item_meta = Some rootMeta, item_props = plainProps exampleEnv\<rparr>
          [Item
            \<lparr>item_id = Some ''I'', item_area = Some exampleArea, connectors = [],
               item_group = None, item_shape = None,
               item_meta = Some (rootMeta\<lparr>ancestorIds := Some [i], parentId := i\<rparr>),
               item_props = plainProps exampleEnv\<rparr>
            []]],
      selectedItems = [], selectedConnectors = [],
      itemMap = (if truthy i then [key_of i \<mapsto> [0], ''I'' \<mapsto> [0, 0]] else [''I'' \<mapsto> [0, 0]]),
      itemArray = [[0], [0, 0]],
      destinationToSourceLookup = \<lambda>k. None, copyBuffer = [[0], [0, 0]],
      connectorsMap = \<lambda>k. None, revision = Suc 0, idCounter = 0, events = []\<rparr>"
  by (simp add: nestedUnder_def reindex_eval leafItem_def exampleArea_def)


text \<open>
  The same happens for a parent whose id is \<^verbatim>\<open>__proto__\<close>, which
  \<^verbatim>\<open>copiedItemIds\<close> does not record.
\<close>

lemma paste_parent_proto_twice:
  "fst (pasteSelectedItems exampleEnv (nestedUnder (Some ''__proto__''))) = None
   \<and> map itemIds (scheme_items (snd (pasteSelectedItems exampleEnv (nestedUnder (Some ''__proto__'')))))
       = [[Some ''__proto__'', Some ''I''], [Some ''g'', Some ''gx''], [Some ''gxx'']]"
  unfolding nestedUnder_reindexed
  by (simp add: pasteSelectedItems_def deselectAllItems_def pasteOne_def placedCopy_def
      worldPointOnItem_def transformOf_def select_eval reindex_eval exampleEnv_def)




end
